theory Spec2Isabelle
  imports Main "HOL-Library.Word"
begin

unbundle bit_operations_syntax

section \<open>The to-do service of main.go\<close>

text \<open>
  The service has four request handlers over one collection of documents:
  \<^verbatim>\<open>fetchTodos\<close>, \<^verbatim>\<open>createTodo\<close>, \<^verbatim>\<open>updateTodo\<close> and \<^verbatim>\<open>deleteTodo\<close>.
  Each handler is embedded as a function from the environment of the call, the
  documents of the collection and the request to the response written, the
  documents afterwards and the sequence of input/output events it performed.
  Go strings are byte strings: \<^typ>\<open>string\<close>.
\<close>

subsection \<open>Data model\<close>

type_synonym byte = "8 word"

text \<open>
  \<^verbatim>\<open>primitive.ObjectID\<close> is \<^verbatim>\<open>[12]byte\<close>; \<^verbatim>\<open>time.Time\<close> is an instant, here
  the nanoseconds since the Unix epoch.
\<close>

type_synonym ObjectID = "byte list"
type_synonym time = int

text \<open>
  The two structs of main.go, lines 33-44. The \<^verbatim>\<open>bson\<close> tags name the fields of a
  stored document (\<^verbatim>\<open>_id\<close>, \<^verbatim>\<open>title\<close>, \<^verbatim>\<open>completed\<close>, \<^verbatim>\<open>createAt\<close>), the
  \<^verbatim>\<open>json\<close> tags those of the wire form.
\<close>

record todoModel =
  ID :: ObjectID
  Title :: string
  Completed :: bool
  CreatedAt :: time

record todo =
  ID :: string
  Title :: string
  Completed :: bool
  CreatedAt :: time

datatype error =
    ErrInvalidHex
  | InvalidByteError char
  | ErrLength
  | JSONError string
  | StoreError string
  | DuplicateKey ObjectID

text \<open>What \<^verbatim>\<open>rnd.JSON\<close> writes: a status and a JSON value.\<close>

datatype json =
    JNull
  | JBool bool
  | JString string
  | JTime time
  | JErr error
  | JArray "json list"
  | JObject "(string \<times> json) list"

record response =
  status :: nat
  payload :: json

definition JSON :: "nat \<Rightarrow> json \<Rightarrow> response" where
  "JSON code v = \<lparr>status = code, payload = v\<rparr>"

text \<open>
  \<^verbatim>\<open>renderer.M\<close> is \<^verbatim>\<open>map[string]interface{}\<close>, written as a JSON object;
  encoding/json writes the keys of a map in sorted order, the order they are listed in
  below.
\<close>

definition M :: "(string \<times> json) list \<Rightarrow> json" where
  "M kvs = JObject kvs"

definition StatusOK :: nat where "StatusOK = 200"
definition StatusCreated :: nat where "StatusCreated = 201"
definition StatusBadRequest :: nat where "StatusBadRequest = 400"
definition StatusInternalServerError :: nat where "StatusInternalServerError = 500"

text \<open>
  The wire form of a \<^verbatim>\<open>todo\<close>: encoding/json writes the fields in declaration order
  under the names of the \<^verbatim>\<open>json:"..."\<close> tags of lines 40-43.
\<close>

definition todoJSON :: "todo \<Rightarrow> json" where
  "todoJSON t = JObject
     [(''id'', JString (todo.ID t)),
      (''title'', JString (todo.Title t)),
      (''completed'', JBool (todo.Completed t)),
      (''createAt'', JTime (todo.CreatedAt t))]"

text \<open>A nil slice is written as \<^verbatim>\<open>null\<close>, any other slice as an array.\<close>

definition sliceJSON :: "todo list \<Rightarrow> json" where
  "sliceJSON ts = (if ts = [] then JNull else JArray (map todoJSON ts))"

subsection \<open>Library functions the handlers call\<close>

text \<open>
  \<^verbatim>\<open>strings.TrimSpace\<close> removes all leading and trailing white space, as defined
  by Unicode, rune by rune. On the bytes of the string a rune is white space exactly
  when it is the UTF-8 encoding of one of the code points of \<^verbatim>\<open>unicode.IsSpace\<close>:
  U+0009 to U+000D, U+0020, U+0085, U+00A0, U+1680, U+2000 to U+200A, U+2028,
  U+2029, U+202F, U+205F and U+3000.
\<close>

definition unicodeSpaces :: "string list" where
  "unicodeSpaces =
     [[CHR 0x09], [CHR 0x0A], [CHR 0x0B], [CHR 0x0C], [CHR 0x0D], [CHR 0x20],
      [CHR 0xC2, CHR 0x85], [CHR 0xC2, CHR 0xA0],
      [CHR 0xE1, CHR 0x9A, CHR 0x80],
      [CHR 0xE2, CHR 0x80, CHR 0x80], [CHR 0xE2, CHR 0x80, CHR 0x81],
      [CHR 0xE2, CHR 0x80, CHR 0x82], [CHR 0xE2, CHR 0x80, CHR 0x83],
      [CHR 0xE2, CHR 0x80, CHR 0x84], [CHR 0xE2, CHR 0x80, CHR 0x85],
      [CHR 0xE2, CHR 0x80, CHR 0x86], [CHR 0xE2, CHR 0x80, CHR 0x87],
      [CHR 0xE2, CHR 0x80, CHR 0x88], [CHR 0xE2, CHR 0x80, CHR 0x89],
      [CHR 0xE2, CHR 0x80, CHR 0x8A],
      [CHR 0xE2, CHR 0x80, CHR 0xA8], [CHR 0xE2, CHR 0x80, CHR 0xA9],
      [CHR 0xE2, CHR 0x80, CHR 0xAF],
      [CHR 0xE2, CHR 0x81, CHR 0x9F],
      [CHR 0xE3, CHR 0x80, CHR 0x80]]"

text \<open>\<^verbatim>\<open>strings.HasPrefix\<close> and \<^verbatim>\<open>strings.HasSuffix\<close>.\<close>

definition HasPrefix :: "string \<Rightarrow> string \<Rightarrow> bool" where
  "HasPrefix s p = (length p \<le> length s \<and> take (length p) s = p)"

definition HasSuffix :: "string \<Rightarrow> string \<Rightarrow> bool" where
  "HasSuffix s p = (length p \<le> length s \<and> drop (length s - length p) s = p)"

text \<open>The width in bytes of the white-space rune the string starts with, 0 if none.\<close>

definition leadingSpace :: "string \<Rightarrow> nat" where
  "leadingSpace s =
     (case find (HasPrefix s) unicodeSpaces of None \<Rightarrow> 0 | Some e \<Rightarrow> length e)"

text \<open>The width in bytes of the white-space rune the string ends with, 0 if none.\<close>

definition trailingSpace :: "string \<Rightarrow> nat" where
  "trailingSpace s =
     (case find (HasSuffix s) unicodeSpaces of None \<Rightarrow> 0 | Some e \<Rightarrow> length e)"

function TrimLeftSpace :: "string \<Rightarrow> string" where
  "TrimLeftSpace s =
     (if leadingSpace s = 0 then s else TrimLeftSpace (drop (leadingSpace s) s))"
  by pat_completeness auto
termination
proof (relation "measure length")
  fix s :: string
  assume pos: "leadingSpace s \<noteq> 0"
  then obtain e where e: "find (HasPrefix s) unicodeSpaces = Some e"
      "length e = leadingSpace s"
    by (auto simp: leadingSpace_def split: option.splits)
  then have "HasPrefix s e" by (auto simp: find_Some_iff)
  then have "length e \<le> length s" by (simp add: HasPrefix_def)
  with pos e show "(drop (leadingSpace s) s, s) \<in> measure length" by simp
qed simp

function TrimRightSpace :: "string \<Rightarrow> string" where
  "TrimRightSpace s =
     (if trailingSpace s = 0 then s
      else TrimRightSpace (take (length s - trailingSpace s) s))"
  by pat_completeness auto
termination
proof (relation "measure length")
  fix s :: string
  assume pos: "trailingSpace s \<noteq> 0"
  then obtain e where e: "find (HasSuffix s) unicodeSpaces = Some e"
      "length e = trailingSpace s"
    by (auto simp: trailingSpace_def split: option.splits)
  then have "HasSuffix s e" by (auto simp: find_Some_iff)
  then have "length e \<le> length s" by (simp add: HasSuffix_def)
  with pos e show "(take (length s - trailingSpace s) s, s) \<in> measure length" by simp
qed simp

declare TrimLeftSpace.simps [simp del] TrimRightSpace.simps [simp del]

definition TrimSpace :: "string \<Rightarrow> string" where
  "TrimSpace s = TrimRightSpace (TrimLeftSpace s)"

text \<open>
  \<^verbatim>\<open>encoding/hex\<close>: \<^verbatim>\<open>fromHexChar\<close> reads one digit of either case,
  \<^verbatim>\<open>hex.Decode\<close> reads the digits in pairs and stops at the first byte that is
  not a digit, \<^verbatim>\<open>hex.EncodeToString\<close> writes lower-case digits.
\<close>

definition fromHexChar :: "char \<Rightarrow> byte option" where
  "fromHexChar c =
     (let n = (of_char c :: nat) in
      if 48 \<le> n \<and> n \<le> 57 then Some (of_nat (n - 48))
      else if 97 \<le> n \<and> n \<le> 102 then Some (of_nat (n - 97 + 10))
      else if 65 \<le> n \<and> n \<le> 70 then Some (of_nat (n - 65 + 10))
      else None)"

fun hexDecode :: "string \<Rightarrow> error + byte list" where
  "hexDecode [] = Inr []"
| "hexDecode [p] = (case fromHexChar p of None \<Rightarrow> Inl (InvalidByteError p) | Some a \<Rightarrow> Inl ErrLength)"
| "hexDecode (p # q # src) =
     (case fromHexChar p of
        None \<Rightarrow> Inl (InvalidByteError p)
      | Some a \<Rightarrow>
          (case fromHexChar q of
             None \<Rightarrow> Inl (InvalidByteError q)
           | Some b \<Rightarrow>
               (case hexDecode src of
                  Inl err \<Rightarrow> Inl err
                | Inr dst \<Rightarrow> Inr ((push_bit 4 a OR b) # dst))))"

definition hextable :: string where
  "hextable = ''0123456789abcdef''"

definition hexEncode :: "byte list \<Rightarrow> string" where
  "hexEncode src =
     concat (map (\<lambda>v. [hextable ! unat (drop_bit 4 v), hextable ! unat (v AND 0x0f)]) src)"

text \<open>
  \<^verbatim>\<open>primitive.ObjectIDFromHex\<close> accepts exactly the strings of 24 hexadecimal
  digits; \<^verbatim>\<open>ObjectID.Hex\<close> is the lower-case hexadecimal form of the twelve bytes.
\<close>

definition ObjectIDFromHex :: "string \<Rightarrow> error + ObjectID" where
  "ObjectIDFromHex s = (if length s \<noteq> 24 then Inl ErrInvalidHex else hexDecode s)"

definition Hex :: "ObjectID \<Rightarrow> string" where
  "Hex oid = hexEncode oid"

subsection \<open>The environment of a call and the document store\<close>

text \<open>
  What a handler obtains from outside the program during one call: the clock
  (\<^verbatim>\<open>time.Now()\<close>), the identifier generator (\<^verbatim>\<open>primitive.NewObjectID()\<close>), and
  whether the store call of the handler, or the reading of the cursor, fails with a
  driver error.
\<close>

record env =
  now :: time
  NewObjectID :: ObjectID
  storeErr :: "error option"
  cursorErr :: "error option"

text \<open>
  The request as a handler sees it: the \<^verbatim>\<open>id\<close> parameter of the URL
  (\<^verbatim>\<open>chi.URLParam(r, "id")\<close>) and what \<^verbatim>\<open>json.NewDecoder(r.Body).Decode(&t)\<close>
  yields on the body, an error or the decoded \<^verbatim>\<open>todo\<close>.
\<close>

record request =
  URLParam_id :: string
  Body :: "error + todo"

text \<open>
  The collection is the list of its documents, in the order \<^verbatim>\<open>Find\<close> returns them.
  A store call that fails leaves the documents as they are; one that succeeds does
  what the MongoDB operation does: \<^verbatim>\<open>InsertOne\<close> refuses a document whose
  \<^verbatim>\<open>_id\<close> is already present (the unique index on \<^verbatim>\<open>_id\<close>) and appends it
  otherwise, \<^verbatim>\<open>DeleteOne\<close> removes the first document that matches the filter,
  \<^verbatim>\<open>UpdateOne\<close> with \<^verbatim>\<open>$set\<close> overwrites the named fields of the first document
  that matches, and both succeed when no document matches.

  A document is written as BSON and read back by \<^verbatim>\<open>cursor.All\<close>. The driver writes a
  \<^verbatim>\<open>time.Time\<close> as a BSON datetime, the whole milliseconds since the Unix epoch
  (\<^verbatim>\<open>primitive.NewDateTimeFromTime\<close>), and reads it back as the instant of that
  millisecond (\<^verbatim>\<open>DateTime.Time\<close>): a stored creation time is the time given, cut to
  the millisecond. The identifier is stored as given (the option \<^verbatim>\<open>omitempty\<close> of the
  \<^verbatim>\<open>_id\<close> tag leaves out the zero identifier only, which the generator, whose first
  bytes are the Unix time, is taken not to produce).
\<close>

type_synonym collection = "todoModel list"

definition NewDateTimeFromTime :: "time \<Rightarrow> int" where
  "NewDateTimeFromTime t = t div 1000000"

definition DateTime_Time :: "int \<Rightarrow> time" where
  "DateTime_Time dt = dt * 1000000"

definition stored :: "todoModel \<Rightarrow> todoModel" where
  "stored tm =
     tm\<lparr>todoModel.CreatedAt := DateTime_Time (NewDateTimeFromTime (todoModel.CreatedAt tm))\<rparr>"

definition Find :: "env \<Rightarrow> collection \<Rightarrow> error + collection" where
  "Find e db = (case storeErr e of Some err \<Rightarrow> Inl err | None \<Rightarrow> Inr db)"

definition cursorAll :: "env \<Rightarrow> collection \<Rightarrow> error + todoModel list" where
  "cursorAll e cursor = (case cursorErr e of Some err \<Rightarrow> Inl err | None \<Rightarrow> Inr cursor)"

definition InsertOne :: "env \<Rightarrow> collection \<Rightarrow> todoModel \<Rightarrow> error + collection" where
  "InsertOne e db tm =
     (case storeErr e of
        Some err \<Rightarrow> Inl err
      | None \<Rightarrow>
          if todoModel.ID tm \<in> set (map todoModel.ID db)
          then Inl (DuplicateKey (todoModel.ID tm))
          else Inr (db @ [stored tm]))"

fun deleteFirst :: "ObjectID \<Rightarrow> collection \<Rightarrow> collection" where
  "deleteFirst objID [] = []"
| "deleteFirst objID (d # db) =
     (if todoModel.ID d = objID then db else d # deleteFirst objID db)"

definition DeleteOne :: "env \<Rightarrow> collection \<Rightarrow> ObjectID \<Rightarrow> error + collection" where
  "DeleteOne e db objID =
     (case storeErr e of Some err \<Rightarrow> Inl err | None \<Rightarrow> Inr (deleteFirst objID db))"

fun setFirst :: "ObjectID \<Rightarrow> string \<Rightarrow> bool \<Rightarrow> collection \<Rightarrow> collection" where
  "setFirst objID title completed [] = []"
| "setFirst objID title completed (d # db) =
     (if todoModel.ID d = objID
      then d\<lparr>todoModel.Title := title, todoModel.Completed := completed\<rparr> # db
      else d # setFirst objID title completed db)"

definition UpdateOne :: "env \<Rightarrow> collection \<Rightarrow> ObjectID \<Rightarrow> string \<Rightarrow> bool \<Rightarrow> error + collection" where
  "UpdateOne e db objID title completed =
     (case storeErr e of
        Some err \<Rightarrow> Inl err
      | None \<Rightarrow> Inr (setFirst objID title completed db))"

subsection \<open>The handlers\<close>

text \<open>
  The events of a call, in the order the handler performs them: decoding the request
  body, and each call on the collection with its arguments.
\<close>

datatype event =
    BodyRead
  | CallFind
  | CallInsertOne todoModel
  | CallDeleteOne ObjectID
  | CallUpdateOne ObjectID string bool

record result =
  response :: response
  docs :: collection
  events :: "event list"

text \<open>main.go, lines 62-95.\<close>

definition fetchTodos :: "env \<Rightarrow> collection \<Rightarrow> request \<Rightarrow> result" where
  "fetchTodos e db r =
     (case Find e db of
        Inl err \<Rightarrow>
          \<lparr>response = JSON StatusInternalServerError
             (M [(''error'', JErr err), (''message'', JString ''failed to fetch todos'')]),
           docs = db, events = [CallFind]\<rparr>
      | Inr cursor \<Rightarrow>
          (case cursorAll e cursor of
             Inl err \<Rightarrow>
               \<lparr>response = JSON StatusInternalServerError
                  (M [(''error'', JErr err), (''message'', JString ''failed to decode todos'')]),
                docs = db, events = [CallFind]\<rparr>
           | Inr todos \<Rightarrow>
               (let todoList =
                      map (\<lambda>t. \<lparr>todo.ID = Hex (todoModel.ID t),
                                todo.Title = todoModel.Title t,
                                todo.Completed = todoModel.Completed t,
                                todo.CreatedAt = todoModel.CreatedAt t\<rparr>) todos
                in \<lparr>response = JSON StatusOK (M [(''data'', sliceJSON todoList)]),
                    docs = db, events = [CallFind]\<rparr>)))"

text \<open>main.go, lines 97-131.\<close>

definition createTodo :: "env \<Rightarrow> collection \<Rightarrow> request \<Rightarrow> result" where
  "createTodo e db r =
     (case Body r of
        Inl err \<Rightarrow>
          \<lparr>response = JSON StatusBadRequest (JErr err), docs = db, events = [BodyRead]\<rparr>
      | Inr t \<Rightarrow>
          if todo.Title t = []
          then \<lparr>response = JSON StatusBadRequest
                  (M [(''message'', JString ''The title is required'')]),
                docs = db, events = [BodyRead]\<rparr>
          else
            (let tm = \<lparr>todoModel.ID = NewObjectID e,
                       todoModel.Title = todo.Title t,
                       todoModel.Completed = False,
                       todoModel.CreatedAt = now e\<rparr>
             in case InsertOne e db tm of
                  Inl err \<Rightarrow>
                    \<lparr>response = JSON StatusInternalServerError
                       (M [(''error'', JErr err), (''message'', JString ''Failed to save todo'')]),
                     docs = db, events = [BodyRead, CallInsertOne tm]\<rparr>
                | Inr db' \<Rightarrow>
                    \<lparr>response = JSON StatusCreated
                       (M [(''message'', JString ''Todo created successfully''),
                           (''todo_id'', JString (Hex (todoModel.ID tm)))]),
                     docs = db', events = [BodyRead, CallInsertOne tm]\<rparr>))"

text \<open>main.go, lines 133-156.\<close>

definition deleteTodo :: "env \<Rightarrow> collection \<Rightarrow> request \<Rightarrow> result" where
  "deleteTodo e db r =
     (let id = TrimSpace (URLParam_id r)
      in case ObjectIDFromHex id of
           Inl err \<Rightarrow>
             \<lparr>response = JSON StatusBadRequest (M [(''message'', JString ''The Id is invalid'')]),
              docs = db, events = []\<rparr>
         | Inr objID \<Rightarrow>
             (case DeleteOne e db objID of
                Inl err \<Rightarrow>
                  \<lparr>response = JSON StatusInternalServerError
                     (M [(''error'', JErr err), (''message'', JString ''failed to delete todo'')]),
                   docs = db, events = [CallDeleteOne objID]\<rparr>
              | Inr db' \<Rightarrow>
                  \<lparr>response = JSON StatusOK
                     (M [(''message'', JString ''todo deleted successfully'')]),
                   docs = db', events = [CallDeleteOne objID]\<rparr>))"

text \<open>main.go, lines 158-197.\<close>

definition updateTodo :: "env \<Rightarrow> collection \<Rightarrow> request \<Rightarrow> result" where
  "updateTodo e db r =
     (let id = TrimSpace (URLParam_id r)
      in case ObjectIDFromHex id of
           Inl err \<Rightarrow>
             \<lparr>response = JSON StatusBadRequest (M [(''message'', JString ''The id is invalid'')]),
              docs = db, events = []\<rparr>
         | Inr objID \<Rightarrow>
             (case Body r of
                Inl err \<Rightarrow>
                  \<lparr>response = JSON StatusBadRequest (JErr err), docs = db, events = [BodyRead]\<rparr>
              | Inr t \<Rightarrow>
                  if todo.Title t = []
                  then \<lparr>response = JSON StatusBadRequest
                          (M [(''message'', JString ''The title field is missing'')]),
                        docs = db, events = [BodyRead]\<rparr>
                  else
                    (let ev = [BodyRead, CallUpdateOne objID (todo.Title t) (todo.Completed t)]
                     in case UpdateOne e db objID (todo.Title t) (todo.Completed t) of
                          Inl err \<Rightarrow>
                            \<lparr>response = JSON StatusInternalServerError
                               (M [(''error'', JErr err),
                                   (''message'', JString ''failed to update todo'')]),
                             docs = db, events = ev\<rparr>
                        | Inr db' \<Rightarrow>
                            \<lparr>response = JSON StatusOK
                               (M [(''message'', JString ''Todo updated successfully'')]),
                             docs = db', events = ev\<rparr>)))"

text \<open>
  The routes of \<^verbatim>\<open>todoHandlers\<close> (lines 231-240), and a sequence of calls, each with its
  own environment and request, run on the collection one after the other.
\<close>

datatype route = GET | POST | PUT | DELETE

fun todoHandlers :: "route \<Rightarrow> env \<Rightarrow> collection \<Rightarrow> request \<Rightarrow> result" where
  "todoHandlers GET = fetchTodos"
| "todoHandlers POST = createTodo"
| "todoHandlers PUT = updateTodo"
| "todoHandlers DELETE = deleteTodo"

fun serve :: "collection \<Rightarrow> (route \<times> env \<times> request) list \<Rightarrow> collection" where
  "serve db [] = db"
| "serve db ((m, e, r) # calls) = serve (docs (todoHandlers m e db r)) calls"

text \<open>The same sequence of calls, as the clients see it: each request with its result.\<close>

fun served :: "collection \<Rightarrow> (route \<times> env \<times> request) list
    \<Rightarrow> (route \<times> request \<times> result) list" where
  "served db [] = []"
| "served db ((m, e, r) # calls) =
     (m, r, todoHandlers m e db r) # served (docs (todoHandlers m e db r)) calls"

subsection \<open>Reading a response\<close>

text \<open>
  The value under a key of a JSON object, the names of its fields in the order
  written, and the tasks a response of \<^verbatim>\<open>fetchTodos\<close> carries under \<^verbatim>\<open>data\<close>.
\<close>

definition field :: "string \<Rightarrow> json \<Rightarrow> json" where
  "field k j =
     (case j of
        JObject kvs \<Rightarrow> (case map_of kvs k of Some v \<Rightarrow> v | None \<Rightarrow> JNull)
      | _ \<Rightarrow> JNull)"

definition fieldNames :: "json \<Rightarrow> string list" where
  "fieldNames j = (case j of JObject kvs \<Rightarrow> map fst kvs | _ \<Rightarrow> [])"

definition arrayOf :: "json \<Rightarrow> json list" where
  "arrayOf j = (case j of JArray js \<Rightarrow> js | _ \<Rightarrow> [])"

definition listedTasks :: "result \<Rightarrow> json list" where
  "listedTasks res = arrayOf (field ''data'' (payload (response res)))"

text \<open>
  A request names an identifier when its trimmed \<^verbatim>\<open>id\<close> parses to it. A served call
  deleted (updated) an identifier when it is a DELETE (a PUT) that names it and was
  answered 200. The title and \<^verbatim>\<open>completed\<close> of a task after a sequence of served calls
  are those of the body of the last call that updated it, or the ones it had before.
\<close>

definition names :: "request \<Rightarrow> ObjectID \<Rightarrow> bool" where
  "names r objID = (ObjectIDFromHex (TrimSpace (URLParam_id r)) = Inr objID)"

definition deleted :: "ObjectID \<Rightarrow> route \<times> request \<times> result \<Rightarrow> bool" where
  "deleted objID c =
     (case c of (m, r, res) \<Rightarrow> m = DELETE \<and> names r objID \<and> status (response res) = StatusOK)"

definition updated :: "ObjectID \<Rightarrow> route \<times> request \<times> result \<Rightarrow> bool" where
  "updated objID c =
     (case c of (m, r, res) \<Rightarrow> m = PUT \<and> names r objID \<and> status (response res) = StatusOK)"

fun current :: "ObjectID \<Rightarrow> string \<times> bool \<Rightarrow> (route \<times> request \<times> result) list
    \<Rightarrow> string \<times> bool" where
  "current objID tc [] = tc"
| "current objID tc ((m, r, res) # log) =
     current objID
       (if updated objID (m, r, res)
        then (case Body r of Inr t \<Rightarrow> (todo.Title t, todo.Completed t) | Inl err \<Rightarrow> tc)
        else tc) log"

text \<open>The wire form of a stored document, as \<^verbatim>\<open>fetchTodos\<close> converts it (lines 85-90).\<close>

definition wire :: "todoModel \<Rightarrow> todo" where
  "wire t = \<lparr>todo.ID = Hex (todoModel.ID t), todo.Title = todoModel.Title t,
              todo.Completed = todoModel.Completed t, todo.CreatedAt = todoModel.CreatedAt t\<rparr>"

subsection \<open>Concrete calls\<close>

text \<open>Two identifiers, a stored document, and the environments and requests of a few calls.\<close>

definition oidA :: ObjectID where
  "oidA = [0x65, 0x4f, 0x1a, 0x2b, 0x3c, 0x4d, 0x5e, 0x6f, 0x70, 0x81, 0x92, 0xa3]"

definition oidB :: ObjectID where
  "oidB = [0x00, 0x11, 0x22, 0x33, 0x44, 0x55, 0x66, 0x77, 0x88, 0x99, 0xaa, 0xbb]"

definition docA :: todoModel where
  "docA = \<lparr>todoModel.ID = oidA, todoModel.Title = ''buy milk'',
            todoModel.Completed = False, todoModel.CreatedAt = 1690000000\<rparr>"

definition docB :: todoModel where
  "docB = \<lparr>todoModel.ID = oidB, todoModel.Title = ''New Todo'',
            todoModel.Completed = False, todoModel.CreatedAt = 1700000000123000000\<rparr>"

definition envUp :: env where
  "envUp = \<lparr>now = 1700000000123456789, NewObjectID = oidB, storeErr = None, cursorErr = None\<rparr>"

definition envDown :: env where
  "envDown = \<lparr>now = 1700000000123456789, NewObjectID = oidB,
               storeErr = Some (StoreError ''connection refused''), cursorErr = None\<rparr>"

definition newTodo :: todo where
  "newTodo = \<lparr>todo.ID = [], todo.Title = ''New Todo'', todo.Completed = True,
               todo.CreatedAt = 0\<rparr>"

definition updatedTodo :: todo where
  "updatedTodo = \<lparr>todo.ID = [], todo.Title = ''Updated'', todo.Completed = True,
                   todo.CreatedAt = 0\<rparr>"

definition blankTodo :: todo where
  "blankTodo = \<lparr>todo.ID = [], todo.Title = ''  '', todo.Completed = False,
                 todo.CreatedAt = 0\<rparr>"

definition untitledTodo :: todo where
  "untitledTodo = \<lparr>todo.ID = [], todo.Title = [], todo.Completed = True,
                    todo.CreatedAt = 0\<rparr>"

definition reqList :: request where
  "reqList = \<lparr>URLParam_id = [], Body = Inl (JSONError ''EOF'')\<rparr>"

definition reqCreate :: request where
  "reqCreate = \<lparr>URLParam_id = [], Body = Inr newTodo\<rparr>"

definition reqCreateBlank :: request where
  "reqCreateBlank = \<lparr>URLParam_id = [], Body = Inr blankTodo\<rparr>"

definition reqCreateUntitled :: request where
  "reqCreateUntitled = \<lparr>URLParam_id = [], Body = Inr untitledTodo\<rparr>"

definition reqBadId :: request where
  "reqBadId = \<lparr>URLParam_id = '' not-an-id '', Body = Inr newTodo\<rparr>"

definition reqA :: request where
  "reqA = \<lparr>URLParam_id = ''654f1a2b3c4d5e6f708192a3'', Body = Inr updatedTodo\<rparr>"

definition reqAUntitled :: request where
  "reqAUntitled = \<lparr>URLParam_id = ''654f1a2b3c4d5e6f708192a3'', Body = Inr untitledTodo\<rparr>"

definition reqAMalformed :: request where
  "reqAMalformed =
     \<lparr>URLParam_id = ''654f1a2b3c4d5e6f708192a3'', Body = Inl (JSONError ''unexpected EOF'')\<rparr>"

definition reqB :: request where
  "reqB = \<lparr>URLParam_id = ''00112233445566778899AABB'', Body = Inr updatedTodo\<rparr>"

definition reqBNoBody :: request where
  "reqBNoBody = \<lparr>URLParam_id = ''00112233445566778899AABB'', Body = Inl (JSONError ''EOF'')\<rparr>"

definition reqBUntitled :: request where
  "reqBUntitled = \<lparr>URLParam_id = ''00112233445566778899aabb'', Body = Inr untitledTodo\<rparr>"

definition hexA :: string where
  "hexA = ''654f1a2b3c4d5e6f708192a3''"

text \<open>White space around an identifier, and the calls that follow a creation.\<close>

definition spacesL :: "string list" where
  "spacesL = ['' '', [CHR 0xC2, CHR 0xA0]]"

definition spacesR :: "string list" where
  "spacesR = [[CHR 0x09], [CHR 0xE3, CHR 0x80, CHR 0x80], [CHR 0x0A]]"

definition laterCalls :: "(route \<times> env \<times> request) list" where
  "laterCalls = [(PUT, envUp, reqBUntitled), (DELETE, envDown, reqBNoBody),
                 (PUT, envUp, reqA), (POST, envUp, reqCreate), (DELETE, envUp, reqA),
                 (GET, envDown, reqList)]"

definition laterCallsUpdating :: "(route \<times> env \<times> request) list" where
  "laterCallsUpdating = [(PUT, envUp, reqB), (PUT, envDown, reqBUntitled)]"

section \<open>Auxiliary facts\<close>

subsection \<open>Trimming an identifier\<close>

lemma HasSuffix_rev: "HasSuffix s p \<longleftrightarrow> HasPrefix (rev s) (rev p)"
proof -
  have "take (length p) (rev s) = rev (drop (length s - length p) s)"
    by (simp add: take_rev)
  then show ?thesis by (auto simp: HasSuffix_def HasPrefix_def)
qed

lemma leadingSpace_space:
  assumes "e \<in> set unicodeSpaces"
  shows "leadingSpace (e @ s) = length e"
  using assms
  apply (simp only: unicodeSpaces_def list.set insert_iff empty_iff)
  apply (elim disjE FalseE)
  apply (simp_all add: leadingSpace_def unicodeSpaces_def HasPrefix_def)
  done

lemma trailingSpace_space:
  assumes "e \<in> set unicodeSpaces"
  shows "trailingSpace (s @ e) = length e"
  using assms
  apply (simp only: unicodeSpaces_def list.set insert_iff empty_iff)
  apply (elim disjE FalseE)
  apply (simp_all add: trailingSpace_def unicodeSpaces_def HasSuffix_rev HasPrefix_def)
  done

lemma hexDigit_not_space:
  assumes "fromHexChar c \<noteq> None" "e \<in> set unicodeSpaces"
  shows "hd e \<noteq> c \<and> last e \<noteq> c \<and> e \<noteq> []"
  using assms(2,1)
  apply (simp only: unicodeSpaces_def list.set insert_iff empty_iff)
  apply (elim disjE FalseE)
  apply (auto simp add: fromHexChar_def)
  done

lemma leadingSpace_hexDigit:
  assumes "fromHexChar c \<noteq> None"
  shows "leadingSpace (c # s) = 0"
proof -
  have "\<not> HasPrefix (c # s) e" if "e \<in> set unicodeSpaces" for e
    using hexDigit_not_space [OF assms that] by (cases e) (auto simp: HasPrefix_def)
  then have "find (HasPrefix (c # s)) unicodeSpaces = None"
    by (simp add: find_None_iff)
  then show ?thesis by (simp add: leadingSpace_def)
qed

lemma trailingSpace_hexDigit:
  assumes "fromHexChar c \<noteq> None"
  shows "trailingSpace (s @ [c]) = 0"
proof -
  have "\<not> HasSuffix (s @ [c]) e" if "e \<in> set unicodeSpaces" for e
    using hexDigit_not_space [OF assms that]
    by (cases e rule: rev_cases) (auto simp: HasSuffix_rev HasPrefix_def)
  then have "find (HasSuffix (s @ [c])) unicodeSpaces = None"
    by (simp add: find_None_iff)
  then show ?thesis by (simp add: trailingSpace_def)
qed

lemma TrimLeftSpace_spaces:
  "set ws \<subseteq> set unicodeSpaces \<Longrightarrow> TrimLeftSpace (concat ws @ s) = TrimLeftSpace s"
proof (induction ws)
  case Nil
  then show ?case by simp
next
  case (Cons e ws)
  then have e: "e \<in> set unicodeSpaces" and ws: "set ws \<subseteq> set unicodeSpaces" by auto
  have w: "leadingSpace (e @ concat ws @ s) = length e" by (rule leadingSpace_space [OF e])
  have "e \<noteq> []" using e by (auto simp: unicodeSpaces_def)
  then have "TrimLeftSpace (e @ concat ws @ s) = TrimLeftSpace (concat ws @ s)"
    by (subst TrimLeftSpace.simps) (simp add: w)
  with Cons.IH [OF ws] show ?case by simp
qed

lemma TrimRightSpace_spaces:
  "set ws \<subseteq> set unicodeSpaces \<Longrightarrow> TrimRightSpace (s @ concat ws) = TrimRightSpace s"
proof (induction ws rule: rev_induct)
  case Nil
  then show ?case by simp
next
  case (snoc e ws)
  then have e: "e \<in> set unicodeSpaces" and ws: "set ws \<subseteq> set unicodeSpaces" by auto
  have w: "trailingSpace (s @ concat ws @ e) = length e"
    using trailingSpace_space [OF e, of "s @ concat ws"] by simp
  have "e \<noteq> []" using e by (auto simp: unicodeSpaces_def)
  then have "TrimRightSpace (s @ concat ws @ e) = TrimRightSpace (s @ concat ws)"
    by (subst TrimRightSpace.simps) (simp add: w)
  with snoc.IH [OF ws] show ?case by simp
qed

lemma hexDecode_digits: "hexDecode s = Inr bs \<Longrightarrow> c \<in> set s \<Longrightarrow> fromHexChar c \<noteq> None"
  by (induction s arbitrary: bs rule: hexDecode.induct) (auto split: option.splits sum.splits)

lemma TrimSpace_identifier:
  assumes ws1: "set ws1 \<subseteq> set unicodeSpaces" and ws2: "set ws2 \<subseteq> set unicodeSpaces"
    and h: "ObjectIDFromHex h = Inr objID"
  shows "TrimSpace (concat ws1 @ h @ concat ws2) = h"
proof -
  from h have len: "length h = 24" and dec: "hexDecode h = Inr objID"
    by (auto simp: ObjectIDFromHex_def split: if_splits)
  from len have ne: "h \<noteq> []" by auto
  then obtain c h' where hc: "h = c # h'" by (cases h) auto
  from ne obtain h'' d where hd: "h = h'' @ [d]" by (cases h rule: rev_cases) auto
  have c: "fromHexChar c \<noteq> None" using hexDecode_digits [OF dec, of c] hc by simp
  have d: "fromHexChar d \<noteq> None" using hexDecode_digits [OF dec, of d] hd by simp
  have "TrimLeftSpace (concat ws1 @ h @ concat ws2) = TrimLeftSpace (h @ concat ws2)"
    by (rule TrimLeftSpace_spaces [OF ws1])
  also have "\<dots> = h @ concat ws2"
    using leadingSpace_hexDigit [OF c, of "h' @ concat ws2"]
    by (subst TrimLeftSpace.simps) (simp add: hc)
  finally have "TrimSpace (concat ws1 @ h @ concat ws2) = TrimRightSpace (h @ concat ws2)"
    by (simp add: TrimSpace_def)
  also have "\<dots> = TrimRightSpace h" by (rule TrimRightSpace_spaces [OF ws2])
  also have "\<dots> = h" using trailingSpace_hexDigit [OF d, of h'']
    by (subst TrimRightSpace.simps) (simp add: hd)
  finally show ?thesis .
qed

subsection \<open>The store operations\<close>

lemma setFirst_length: "length (setFirst objID title completed db) = length db"
  by (induction db) auto

lemma setFirst_nth:
  "i < length db \<Longrightarrow>
     setFirst objID title completed db ! i = db ! i
   \<or> setFirst objID title completed db ! i
        = (db ! i)\<lparr>todoModel.Title := title, todoModel.Completed := completed\<rparr>
      \<and> todoModel.ID (db ! i) = objID"
proof (induction db arbitrary: i)
  case Nil
  then show ?case by simp
next
  case (Cons d db)
  then show ?case by (cases i) auto
qed

lemma setFirst_find:
  "find (\<lambda>d. todoModel.ID d = objID) (setFirst objID title completed db)
     = map_option (\<lambda>d. d\<lparr>todoModel.Title := title, todoModel.Completed := completed\<rparr>)
         (find (\<lambda>d. todoModel.ID d = objID) db)"
  by (induction db) auto

lemma setFirst_absent:
  "objID \<notin> todoModel.ID ` set db \<Longrightarrow> setFirst objID title completed db = db"
  by (induction db) auto

lemma deleteFirst_absent: "objID \<notin> todoModel.ID ` set db \<Longrightarrow> deleteFirst objID db = db"
  by (induction db) auto

lemma setFirst_ids: "map todoModel.ID (setFirst objID title completed db) = map todoModel.ID db"
  by (induction db) auto

lemma deleteFirst_subset: "set (deleteFirst objID db) \<subseteq> set db"
  by (induction db) auto

lemma deleteFirst_distinct:
  "distinct (map todoModel.ID db) \<Longrightarrow> distinct (map todoModel.ID (deleteFirst objID db))"
proof (induction db)
  case Nil
  then show ?case by simp
next
  case (Cons d db)
  then show ?case using deleteFirst_subset [of objID db] by auto
qed

lemma setFirst_filter_other:
  "J \<noteq> I \<Longrightarrow>
   filter (\<lambda>d. todoModel.ID d = I) (setFirst J title completed db)
     = filter (\<lambda>d. todoModel.ID d = I) db"
  by (induction db) auto

lemma setFirst_filter_same:
  "filter (\<lambda>d. todoModel.ID d = I) db = [d] \<Longrightarrow>
   filter (\<lambda>d. todoModel.ID d = I) (setFirst I title completed db)
     = [d\<lparr>todoModel.Title := title, todoModel.Completed := completed\<rparr>]"
proof (induction db)
  case Nil
  then show ?case by simp
next
  case (Cons x db)
  then show ?case by (auto split: if_splits)
qed

lemma deleteFirst_filter_other:
  "J \<noteq> I \<Longrightarrow>
   filter (\<lambda>d. todoModel.ID d = I) (deleteFirst J db) = filter (\<lambda>d. todoModel.ID d = I) db"
  by (induction db) auto

subsection \<open>The documents after each handler\<close>

lemma fetchTodos_docs: "docs (fetchTodos e db r) = db"
  by (simp add: fetchTodos_def Let_def split: sum.splits)

lemma createTodo_docs:
  "docs (createTodo e db r) = db \<or>
   (\<exists>t. Body r = Inr t \<and> todo.Title t \<noteq> [] \<and> NewObjectID e \<notin> todoModel.ID ` set db \<and>
      docs (createTodo e db r) =
        db @ [\<lparr>todoModel.ID = NewObjectID e, todoModel.Title = todo.Title t,
               todoModel.Completed = False,
               todoModel.CreatedAt = DateTime_Time (NewDateTimeFromTime (now e))\<rparr>])"
  by (auto simp: createTodo_def InsertOne_def stored_def Let_def
      split: sum.splits option.splits if_splits)

lemma updateTodo_docs:
  "docs (updateTodo e db r) = db \<or>
   (\<exists>objID t. ObjectIDFromHex (TrimSpace (URLParam_id r)) = Inr objID \<and> Body r = Inr t \<and>
      docs (updateTodo e db r) = setFirst objID (todo.Title t) (todo.Completed t) db)"
  by (auto simp: updateTodo_def UpdateOne_def Let_def split: sum.splits option.splits if_splits)

lemma deleteTodo_docs:
  "docs (deleteTodo e db r) = db \<or>
   (\<exists>objID. ObjectIDFromHex (TrimSpace (URLParam_id r)) = Inr objID \<and>
      docs (deleteTodo e db r) = deleteFirst objID db)"
  by (auto simp: deleteTodo_def DeleteOne_def Let_def split: sum.splits option.splits if_splits)

lemma updateTodo_cases:
  "(status (response (updateTodo e db r)) = StatusOK \<and>
      (\<exists>J t. names r J \<and> Body r = Inr t \<and>
         docs (updateTodo e db r) = setFirst J (todo.Title t) (todo.Completed t) db))
   \<or> (status (response (updateTodo e db r)) \<noteq> StatusOK \<and> docs (updateTodo e db r) = db)"
  by (auto simp: updateTodo_def UpdateOne_def names_def JSON_def Let_def StatusOK_def
      StatusBadRequest_def StatusInternalServerError_def
      split: sum.splits option.splits if_splits)

lemma deleteTodo_cases:
  "(status (response (deleteTodo e db r)) = StatusOK \<and>
      (\<exists>J. names r J \<and> docs (deleteTodo e db r) = deleteFirst J db))
   \<or> (status (response (deleteTodo e db r)) \<noteq> StatusOK \<and> docs (deleteTodo e db r) = db)"
  by (auto simp: deleteTodo_def DeleteOne_def names_def JSON_def Let_def StatusOK_def
      StatusBadRequest_def StatusInternalServerError_def
      split: sum.splits option.splits if_splits)

lemma names_unique: "names r I \<Longrightarrow> names r J \<Longrightarrow> I = J"
  by (simp add: names_def)

subsection \<open>What a successful listing carries\<close>

lemma listedTasks_fetchTodos:
  assumes "storeErr e = None" "cursorErr e = None"
  shows "listedTasks (fetchTodos e db r) = map (\<lambda>t. todoJSON (wire t)) db"
  using assms
  by (cases db)
     (simp_all add: fetchTodos_def Find_def cursorAll_def listedTasks_def field_def arrayOf_def
        M_def JSON_def sliceJSON_def wire_def)

lemma listedTasks_fetchTodos_subset:
  "set (listedTasks (fetchTodos e db r)) \<subseteq> (\<lambda>t. todoJSON (wire t)) ` set db"
  by (cases db)
     (auto simp add: fetchTodos_def Find_def cursorAll_def listedTasks_def field_def arrayOf_def
        M_def JSON_def sliceJSON_def wire_def split: option.splits)

subsection \<open>Identifiers stay unique\<close>

lemma todoHandlers_distinct:
  assumes "distinct (map todoModel.ID db)"
  shows "distinct (map todoModel.ID (docs (todoHandlers m e db r)))"
proof (cases m)
  case GET
  with assms show ?thesis by (simp add: fetchTodos_docs)
next
  case POST
  with assms createTodo_docs [of e db r] show ?thesis by auto
next
  case PUT
  with assms updateTodo_docs [of e db r] show ?thesis by (auto simp: setFirst_ids)
next
  case DELETE
  with assms deleteTodo_docs [of e db r] show ?thesis by (auto intro: deleteFirst_distinct)
qed

lemma serve_distinct:
  "distinct (map todoModel.ID db) \<Longrightarrow> distinct (map todoModel.ID (serve db calls))"
proof (induction calls arbitrary: db)
  case Nil
  then show ?case by simp
next
  case (Cons c calls)
  obtain m e r where "c = (m, e, r)" by (cases c)
  with Cons show ?case by (simp add: todoHandlers_distinct)
qed

subsection \<open>The hexadecimal form of an identifier parses back to it\<close>

lemma fromHexChar_hextable:
  assumes "n < 16"
  shows "fromHexChar (hextable ! n) = Some (of_nat n)"
proof -
  have "list_all (\<lambda>n. fromHexChar (hextable ! n) = Some (of_nat n)) [0..<16]"
    by code_simp
  with assms show ?thesis by (simp add: list_all_iff del: upt.simps)
qed

lemma low_mask: "(0x0f :: byte) = mask 4"
  by (simp add: mask_eq_exp_minus_1)

lemma byte_nibbles: "push_bit 4 (drop_bit 4 v) OR (v AND 0x0f) = (v :: byte)"
  unfolding low_mask
  by (rule bit_word_eqI) (auto simp: bit_simps)

lemma hi_nibble: "unat (drop_bit 4 (v :: byte)) < 16"
proof -
  have "unat v < 2 ^ 8" using unsigned_less [of v] by simp
  then have "unat v div 2 ^ 4 < 16" by simp
  moreover have "unat (drop_bit 4 v) = drop_bit 4 (unat v)" by (rule unat_drop_bit_eq)
  moreover have "drop_bit 4 (unat v) = unat v div 2 ^ 4" by (rule drop_bit_eq_div)
  ultimately show ?thesis by simp
qed

lemma lo_nibble: "unat ((v :: byte) AND 0x0f) < 16"
proof -
  have "take_bit 4 (unat v) < 2 ^ 4" by (rule take_bit_nat_less_exp)
  then show ?thesis
    unfolding low_mask by (simp add: unsigned_take_bit_eq flip: take_bit_eq_mask)
qed

lemma hexDecode_hexEncode: "hexDecode (hexEncode bs) = Inr bs"
proof (induction bs)
  case Nil
  then show ?case by (simp add: hexEncode_def)
next
  case (Cons v bs)
  have "hexEncode (v # bs)
      = hextable ! unat (drop_bit 4 v) # hextable ! unat (v AND 0x0f) # hexEncode bs"
    by (simp add: hexEncode_def)
  with Cons show ?case
    by (simp add: fromHexChar_hextable [OF hi_nibble] fromHexChar_hextable [OF lo_nibble]
        byte_nibbles)
qed

lemma length_hexEncode: "length (hexEncode bs) = 2 * length bs"
  by (induction bs) (simp_all add: hexEncode_def)

lemma ObjectIDFromHex_Hex: "length oid = 12 \<Longrightarrow> ObjectIDFromHex (Hex oid) = Inr oid"
  by (simp add: ObjectIDFromHex_def Hex_def length_hexEncode hexDecode_hexEncode)

lemma Hex_inject: "Hex a = Hex b \<longleftrightarrow> a = b"
proof
  assume "Hex a = Hex b"
  then have "hexDecode (hexEncode a) = hexDecode (hexEncode b)" by (simp add: Hex_def)
  then show "a = b" by (simp add: hexDecode_hexEncode)
qed simp

subsection \<open>One task through a sequence of calls\<close>

lemma todoHandlers_filter:
  assumes one: "filter (\<lambda>d. todoModel.ID d = I) db = [d]"
    and kept: "\<not> deleted I (m, r, todoHandlers m e db r)"
  shows "filter (\<lambda>d. todoModel.ID d = I) (docs (todoHandlers m e db r)) =
           [if updated I (m, r, todoHandlers m e db r)
            then (case Body r of
                    Inr t \<Rightarrow> d\<lparr>todoModel.Title := todo.Title t,
                                 todoModel.Completed := todo.Completed t\<rparr>
                  | Inl err \<Rightarrow> d)
            else d]"
proof (cases m)
  case GET
  with one show ?thesis by (simp add: fetchTodos_docs updated_def)
next
  case POST
  from one have "d \<in> set (filter (\<lambda>d. todoModel.ID d = I) db)" by simp
  then have mem: "I \<in> todoModel.ID ` set db" by auto
  from createTodo_docs [of e db r] mem one POST show ?thesis
    by (auto simp: updated_def)
next
  case PUT
  show ?thesis
  proof (cases "updated I (m, r, todoHandlers m e db r)")
    case True
    with PUT have ok: "status (response (updateTodo e db r)) = StatusOK" and n: "names r I"
      by (simp_all add: updated_def)
    with updateTodo_cases [of e db r] obtain J t where
      J: "names r J" "Body r = Inr t"
         "docs (updateTodo e db r) = setFirst J (todo.Title t) (todo.Completed t) db"
      by auto
    from names_unique [OF n J(1)] have "J = I" by simp
    with J True PUT setFirst_filter_same [OF one] show ?thesis by simp
  next
    case False
    show ?thesis
    proof (cases "status (response (updateTodo e db r)) = StatusOK")
      case True
      with updateTodo_cases [of e db r] obtain J t where
        J: "names r J" "Body r = Inr t"
           "docs (updateTodo e db r) = setFirst J (todo.Title t) (todo.Completed t) db"
        by auto
      from False True PUT have "\<not> names r I" by (simp add: updated_def)
      with J(1) have "J \<noteq> I" by auto
      with J False PUT one show ?thesis by (simp add: setFirst_filter_other)
    next
      case nok: False
      with updateTodo_cases [of e db r] have "docs (updateTodo e db r) = db" by auto
      with False PUT one show ?thesis by simp
    qed
  qed
next
  case DELETE
  show ?thesis
  proof (cases "status (response (deleteTodo e db r)) = StatusOK")
    case True
    with deleteTodo_cases [of e db r] obtain J where
      J: "names r J" "docs (deleteTodo e db r) = deleteFirst J db"
      by auto
    from kept True DELETE have "\<not> names r I" by (simp add: deleted_def)
    with J(1) have "J \<noteq> I" by auto
    with J DELETE one show ?thesis by (simp add: deleteFirst_filter_other updated_def)
  next
    case False
    with deleteTodo_cases [of e db r] have "docs (deleteTodo e db r) = db" by auto
    with DELETE one show ?thesis by (simp add: updated_def)
  qed
qed

lemma serve_filter:
  assumes "filter (\<lambda>d. todoModel.ID d = I) db = [d]"
    and "\<forall>c \<in> set (served db calls). \<not> deleted I c"
  shows "filter (\<lambda>d. todoModel.ID d = I) (serve db calls) =
           [d\<lparr>todoModel.Title :=
                 fst (current I (todoModel.Title d, todoModel.Completed d) (served db calls)),
               todoModel.Completed :=
                 snd (current I (todoModel.Title d, todoModel.Completed d) (served db calls))\<rparr>]"
  using assms
proof (induction calls arbitrary: db d)
  case Nil
  then show ?case by simp
next
  case (Cons c calls)
  obtain m e r where c: "c = (m, e, r)" by (cases c)
  let ?res = "todoHandlers m e db r"
  let ?d = "if updated I (m, r, ?res)
            then (case Body r of
                    Inr t \<Rightarrow> d\<lparr>todoModel.Title := todo.Title t,
                                 todoModel.Completed := todo.Completed t\<rparr>
                  | Inl err \<Rightarrow> d)
            else d"
  from Cons.prems c have kept: "\<not> deleted I (m, r, ?res)"
    and rest: "\<forall>c \<in> set (served (docs ?res) calls). \<not> deleted I c"
    by simp_all
  have step: "filter (\<lambda>d. todoModel.ID d = I) (docs ?res) = [?d]"
    by (rule todoHandlers_filter [OF Cons.prems(1) kept])
  from Cons.IH [OF step rest] c show ?case
    by (auto split: sum.splits)
qed

lemma current_unchanged:
  "\<forall>c \<in> set log. \<not> updated I c \<Longrightarrow> current I tc log = tc"
  by (induction log arbitrary: tc) auto

lemma listedTasks_with_id:
  assumes "storeErr e = None" "cursorErr e = None"
  shows "filter (\<lambda>j. field ''id'' j = JString (Hex I)) (listedTasks (fetchTodos e db r))
       = map (\<lambda>d. todoJSON (wire d)) (filter (\<lambda>d. todoModel.ID d = I) db)"
proof -
  have "(\<lambda>j. field ''id'' j = JString (Hex I)) \<circ> (\<lambda>d. todoJSON (wire d))
      = (\<lambda>d. todoModel.ID d = I)"
    by (rule ext) (simp add: field_def todoJSON_def wire_def Hex_inject)
  then show ?thesis
    by (simp add: listedTasks_fetchTodos [OF assms] filter_map)
qed

subsection \<open>The concrete calls\<close>

lemma reqA_id: "ObjectIDFromHex (TrimSpace (URLParam_id reqA)) = Inr oidA"
  by code_simp

lemma reqB_id: "ObjectIDFromHex (TrimSpace (URLParam_id reqB)) = Inr oidB"
  by code_simp


lemma listed_docA:
  "listedTasks (fetchTodos envUp [docA] reqList) =
     [JObject [(''id'', JString ''654f1a2b3c4d5e6f708192a3''), (''title'', JString ''buy milk''),
               (''completed'', JBool False), (''createAt'', JTime 1690000000)]]"
  by (simp add: listedTasks_fetchTodos envUp_def todoJSON_def wire_def docA_def oidA_def
      Hex_def hexEncode_def hextable_def)

lemma created_docs: "docs (createTodo envUp [docA] reqCreate) = [docA, docB]"
  by (simp add: createTodo_def reqCreate_def newTodo_def InsertOne_def stored_def
      DateTime_Time_def NewDateTimeFromTime_def envUp_def docA_def docB_def oidA_def oidB_def
      Let_def)

lemma laterCalls_kept:
  "\<forall>c \<in> set (served [docA, docB] laterCalls). \<not> deleted oidB c"
  by code_simp

lemma laterCalls_not_updating:
  "\<forall>c \<in> set (served [docA, docB] laterCalls). \<not> updated oidB c"
  by code_simp

lemma laterCallsUpdating_kept:
  "\<forall>c \<in> set (served [docA, docB] laterCallsUpdating). \<not> deleted oidB c"
  by code_simp

lemma laterCallsUpdating_current:
  "current oidB (''New Todo'', False) (served [docA, docB] laterCallsUpdating) = (''Updated'', True)"
  by code_simp


section \<open>The claims of the specification\<close>

subsection \<open>Creating\<close>

text \<open>
  C1, as the code has it. For a request whose body decodes and whose title is not empty:
  when the store accepts the insert, \<^verbatim>\<open>createTodo\<close> answers 201 with the hexadecimal
  form of the generated identifier, has passed \<^verbatim>\<open>InsertOne\<close> a document with that
  identifier, the title of the body, \<^verbatim>\<open>Completed\<close> false whatever the body said and
  the time of the call, and the collection has one document more, that document with its
  time cut to the millisecond; and whenever the answer is 201, the identifier of the
  document added is the identifier of no document stored before, so that identifiers that
  were unique stay unique.
\<close>

theorem createTodo_stores_record:
  assumes "Body r = Inr t" and "todo.Title t \<noteq> []"
  shows "(InsertOne e db \<lparr>todoModel.ID = NewObjectID e, todoModel.Title = todo.Title t,
             todoModel.Completed = False, todoModel.CreatedAt = now e\<rparr> = Inr db' \<longrightarrow>
           createTodo e db r =
             \<lparr>response = JSON StatusCreated
                 (M [(''message'', JString ''Todo created successfully''),
                     (''todo_id'', JString (Hex (NewObjectID e)))]),
              docs = db @ [\<lparr>todoModel.ID = NewObjectID e, todoModel.Title = todo.Title t,
                             todoModel.Completed = False,
                             todoModel.CreatedAt = (now e div 1000000) * 1000000\<rparr>],
              events = [BodyRead,
                        CallInsertOne \<lparr>todoModel.ID = NewObjectID e,
                           todoModel.Title = todo.Title t, todoModel.Completed = False,
                           todoModel.CreatedAt = now e\<rparr>]\<rparr>)
       \<and> (status (response (createTodo e db r)) = StatusCreated \<longrightarrow>
            docs (createTodo e db r) =
              db @ [\<lparr>todoModel.ID = NewObjectID e, todoModel.Title = todo.Title t,
                      todoModel.Completed = False,
                      todoModel.CreatedAt = (now e div 1000000) * 1000000\<rparr>]
          \<and> todoModel.ID (last (docs (createTodo e db r))) \<notin> todoModel.ID ` set db
          \<and> (distinct (map todoModel.ID db) \<longrightarrow>
               distinct (map todoModel.ID (docs (createTodo e db r)))))"
  using assms
  by (auto simp: createTodo_def InsertOne_def stored_def DateTime_Time_def
      NewDateTimeFromTime_def Let_def JSON_def StatusCreated_def StatusBadRequest_def
      StatusInternalServerError_def split: option.splits if_splits)

theorem createTodo_stores_record_witness:
  "Body reqCreate = Inr newTodo \<and> todo.Title newTodo \<noteq> [] \<and> todo.Completed newTodo
   \<and> InsertOne envUp [docA]
        \<lparr>todoModel.ID = NewObjectID envUp, todoModel.Title = todo.Title newTodo,
          todoModel.Completed = False, todoModel.CreatedAt = now envUp\<rparr> = Inr [docA, docB]
   \<and> now envUp = 1700000000123456789
   \<and> createTodo envUp [docA] reqCreate =
        \<lparr>response = JSON StatusCreated
            (M [(''message'', JString ''Todo created successfully''),
                (''todo_id'', JString ''00112233445566778899aabb'')]),
         docs = [docA, \<lparr>todoModel.ID = oidB, todoModel.Title = ''New Todo'',
                         todoModel.Completed = False,
                         todoModel.CreatedAt = 1700000000123000000\<rparr>],
         events = [BodyRead,
                   CallInsertOne \<lparr>todoModel.ID = oidB, todoModel.Title = ''New Todo'',
                      todoModel.Completed = False,
                      todoModel.CreatedAt = 1700000000123456789\<rparr>]\<rparr>
   \<and> status (response (createTodo envUp [docA] reqCreate)) = StatusCreated
   \<and> todoModel.ID (last (docs (createTodo envUp [docA] reqCreate))) \<notin> todoModel.ID ` set [docA]"
proof -
  have b: "Body reqCreate = Inr newTodo" by (simp add: reqCreate_def)
  have t: "todo.Title newTodo \<noteq> []" by (simp add: newTodo_def)
  have c: "todo.Completed newTodo" by (simp add: newTodo_def)
  have v: "NewObjectID envUp = oidB" "todo.Title newTodo = ''New Todo''"
    "now envUp = 1700000000123456789"
    by (simp_all add: envUp_def newTodo_def)
  have i: "InsertOne envUp [docA]
        \<lparr>todoModel.ID = NewObjectID envUp, todoModel.Title = todo.Title newTodo,
          todoModel.Completed = False, todoModel.CreatedAt = now envUp\<rparr> = Inr [docA, docB]"
    by (simp add: InsertOne_def stored_def DateTime_Time_def NewDateTimeFromTime_def
        envUp_def newTodo_def docA_def docB_def oidA_def oidB_def)
  have h: "Hex oidB = ''00112233445566778899aabb''"
    by (simp add: oidB_def Hex_def hexEncode_def hextable_def)
  note inst = createTodo_stores_record [OF b t, of envUp "[docA]" "[docA, docB]"]
  from inst i have full: "createTodo envUp [docA] reqCreate =
        \<lparr>response = JSON StatusCreated
            (M [(''message'', JString ''Todo created successfully''),
                (''todo_id'', JString ''00112233445566778899aabb'')]),
         docs = [docA, \<lparr>todoModel.ID = oidB, todoModel.Title = ''New Todo'',
                         todoModel.Completed = False,
                         todoModel.CreatedAt = 1700000000123000000\<rparr>],
         events = [BodyRead,
                   CallInsertOne \<lparr>todoModel.ID = oidB, todoModel.Title = ''New Todo'',
                      todoModel.Completed = False,
                      todoModel.CreatedAt = 1700000000123456789\<rparr>]\<rparr>"
    by (simp add: v h)
  then have s: "status (response (createTodo envUp [docA] reqCreate)) = StatusCreated"
    by (simp add: JSON_def)
  with inst have f: "todoModel.ID (last (docs (createTodo envUp [docA] reqCreate)))
      \<notin> todoModel.ID ` set [docA]"
    by blast
  from b t c i v(3) full s f show ?thesis by blast
qed

text \<open>
  C1 as stated fails twice. When the insert fails (the store is unreachable) the answer
  is 500 and nothing is stored (lines 119-125). When it succeeds, the creation time
  stored is not the time of the call but that time cut to the millisecond.
\<close>

theorem createTodo_store_failure:
  "Body reqCreate = Inr newTodo \<and> todo.Title newTodo \<noteq> []
   \<and> status (response (createTodo envDown [docA] reqCreate)) = StatusInternalServerError
   \<and> status (response (createTodo envDown [docA] reqCreate)) \<noteq> StatusCreated
   \<and> docs (createTodo envDown [docA] reqCreate) = [docA]
   \<and> status (response (createTodo envUp [docA] reqCreate)) = StatusCreated
   \<and> todoModel.CreatedAt (last (docs (createTodo envUp [docA] reqCreate))) = 1700000000123000000
   \<and> now envUp = 1700000000123456789
   \<and> todoModel.CreatedAt (last (docs (createTodo envUp [docA] reqCreate))) \<noteq> now envUp"
  by (simp add: reqCreate_def newTodo_def createTodo_def InsertOne_def stored_def
      DateTime_Time_def NewDateTimeFromTime_def envDown_def envUp_def docA_def oidA_def oidB_def
      JSON_def Let_def StatusCreated_def StatusInternalServerError_def)

text \<open>
  C6. \<^verbatim>\<open>createTodo\<close> writes the validation error (400, "The title is required")
  exactly when the body decodes to a title that is the empty string; for a body that
  decodes, the status is 400 exactly when the title is empty, so a title of blanks is not
  rejected. A request answered 400 stores nothing, calls the store not at all, and a
  listing afterwards is the listing before.
\<close>

theorem createTodo_title_validation:
  "(response (createTodo e db r) =
       JSON StatusBadRequest (M [(''message'', JString ''The title is required'')])
     \<longleftrightarrow> (\<exists>t. Body r = Inr t \<and> todo.Title t = []))
   \<and> (Body r = Inr t \<longrightarrow>
        (status (response (createTodo e db r)) = StatusBadRequest \<longleftrightarrow> todo.Title t = []))
   \<and> (status (response (createTodo e db r)) = StatusBadRequest \<longrightarrow>
        docs (createTodo e db r) = db \<and> events (createTodo e db r) = [BodyRead]
        \<and> fetchTodos e' (docs (createTodo e db r)) r' = fetchTodos e' db r')"
  by (auto simp: createTodo_def JSON_def M_def Let_def StatusBadRequest_def StatusCreated_def
      StatusInternalServerError_def split: sum.splits)

theorem createTodo_title_validation_witness:
  "Body reqCreateUntitled = Inr untitledTodo \<and> todo.Title untitledTodo = []
   \<and> status (response (createTodo envUp [docA] reqCreateUntitled)) = StatusBadRequest
   \<and> docs (createTodo envUp [docA] reqCreateUntitled) = [docA]
   \<and> events (createTodo envUp [docA] reqCreateUntitled) = [BodyRead]
   \<and> fetchTodos envUp (docs (createTodo envUp [docA] reqCreateUntitled)) reqList
        = fetchTodos envUp [docA] reqList
   \<and> Body reqCreateBlank = Inr blankTodo \<and> todo.Title blankTodo = ''  ''
   \<and> status (response (createTodo envUp [docA] reqCreateBlank)) \<noteq> StatusBadRequest"
proof -
  have u: "Body reqCreateUntitled = Inr untitledTodo" "todo.Title untitledTodo = []"
    by (simp_all add: reqCreateUntitled_def untitledTodo_def)
  have w: "Body reqCreateBlank = Inr blankTodo" "todo.Title blankTodo = ''  ''"
    by (simp_all add: reqCreateBlank_def blankTodo_def)
  from createTodo_title_validation [of envUp "[docA]" reqCreateUntitled untitledTodo envUp reqList] u
  have 1: "status (response (createTodo envUp [docA] reqCreateUntitled)) = StatusBadRequest
   \<and> docs (createTodo envUp [docA] reqCreateUntitled) = [docA]
   \<and> events (createTodo envUp [docA] reqCreateUntitled) = [BodyRead]
   \<and> fetchTodos envUp (docs (createTodo envUp [docA] reqCreateUntitled)) reqList
        = fetchTodos envUp [docA] reqList"
    by (simp add: JSON_def)
  from createTodo_title_validation [of envUp "[docA]" reqCreateBlank blankTodo] w
  have 2: "status (response (createTodo envUp [docA] reqCreateBlank)) \<noteq> StatusBadRequest"
    by (simp add: JSON_def)
  from u w 1 2 show ?thesis by simp
qed

subsection \<open>Listing\<close>

text \<open>
  C2, as the code has it. After a creation answered 201, and any calls served after it of
  which none deleted the new identifier (a DELETE that names it and is answered 200), a
  successful listing carries exactly one task whose \<^verbatim>\<open>id\<close> is the hexadecimal form of
  the generated identifier, the one the creation's response carried. Its creation time is
  the time of the creating call cut to the millisecond. Its title and its
  \<^verbatim>\<open>completed\<close> are those of the body of the last call that updated the identifier (a
  PUT that names it and is answered 200); when no call did, they are the title supplied
  and false.
\<close>

theorem created_task_round_trip:
  assumes body: "Body r = Inr t"
    and created: "status (response (createTodo e db r)) = StatusCreated"
    and listing: "storeErr eL = None" "cursorErr eL = None"
    and kept: "\<forall>c \<in> set (served (docs (createTodo e db r)) calls). \<not> deleted (NewObjectID e) c"
  shows "field ''todo_id'' (payload (response (createTodo e db r))) = JString (Hex (NewObjectID e))
       \<and> filter (\<lambda>j. field ''id'' j = JString (Hex (NewObjectID e)))
            (listedTasks (fetchTodos eL (serve (docs (createTodo e db r)) calls) rL))
          = [todoJSON
               \<lparr>todo.ID = Hex (NewObjectID e),
                todo.Title = fst (current (NewObjectID e) (todo.Title t, False)
                                    (served (docs (createTodo e db r)) calls)),
                todo.Completed = snd (current (NewObjectID e) (todo.Title t, False)
                                        (served (docs (createTodo e db r)) calls)),
                todo.CreatedAt = (now e div 1000000) * 1000000\<rparr>]
       \<and> ((\<forall>c \<in> set (served (docs (createTodo e db r)) calls). \<not> updated (NewObjectID e) c)
            \<longrightarrow> current (NewObjectID e) (todo.Title t, False)
                  (served (docs (createTodo e db r)) calls) = (todo.Title t, False))"
proof -
  let ?I = "NewObjectID e"
  let ?tm = "\<lparr>todoModel.ID = ?I, todoModel.Title = todo.Title t,
              todoModel.Completed = False,
              todoModel.CreatedAt = (now e div 1000000) * 1000000\<rparr>"
  let ?db = "docs (createTodo e db r)"
  from body created have resp: "response (createTodo e db r) =
      JSON StatusCreated (M [(''message'', JString ''Todo created successfully''),
                             (''todo_id'', JString (Hex ?I))])"
    and stored: "?db = db @ [?tm]" and fresh: "?I \<notin> todoModel.ID ` set db"
    by (auto simp: createTodo_def InsertOne_def stored_def DateTime_Time_def
        NewDateTimeFromTime_def Let_def JSON_def StatusCreated_def
        StatusBadRequest_def StatusInternalServerError_def
        split: sum.splits if_splits option.splits)
  from resp have id: "field ''todo_id'' (payload (response (createTodo e db r)))
      = JString (Hex ?I)"
    by (simp add: JSON_def M_def field_def)
  from fresh have "filter (\<lambda>d. todoModel.ID d = ?I) db = []"
    by (force simp: filter_empty_conv)
  with stored have one: "filter (\<lambda>d. todoModel.ID d = ?I) ?db = [?tm]" by simp
  from serve_filter [OF one kept]
  have "filter (\<lambda>d. todoModel.ID d = ?I) (serve ?db calls) =
      [?tm\<lparr>todoModel.Title := fst (current ?I (todo.Title t, False) (served ?db calls)),
            todoModel.Completed := snd (current ?I (todo.Title t, False) (served ?db calls))\<rparr>]"
    by simp
  then have l: "filter (\<lambda>j. field ''id'' j = JString (Hex ?I))
            (listedTasks (fetchTodos eL (serve ?db calls) rL))
          = [todoJSON
               \<lparr>todo.ID = Hex ?I,
                todo.Title = fst (current ?I (todo.Title t, False) (served ?db calls)),
                todo.Completed = snd (current ?I (todo.Title t, False) (served ?db calls)),
                todo.CreatedAt = (now e div 1000000) * 1000000\<rparr>]"
    by (simp add: listedTasks_with_id [OF listing] wire_def)
  from id l current_unchanged [of "served ?db calls" ?I "(todo.Title t, False)"]
  show ?thesis by blast
qed

theorem created_task_round_trip_witness:
  "Body reqCreate = Inr newTodo
   \<and> status (response (createTodo envUp [docA] reqCreate)) = StatusCreated
   \<and> storeErr envUp = None \<and> cursorErr envUp = None
   \<and> now envUp = 1700000000123456789
   \<and> field ''todo_id'' (payload (response (createTodo envUp [docA] reqCreate)))
        = JString ''00112233445566778899aabb''
   \<and> filter (\<lambda>j. field ''id'' j = JString ''00112233445566778899aabb'')
        (listedTasks (fetchTodos envUp
           (serve (docs (createTodo envUp [docA] reqCreate)) laterCalls) reqList))
      = [todoJSON \<lparr>todo.ID = ''00112233445566778899aabb'', todo.Title = ''New Todo'',
                   todo.Completed = False, todo.CreatedAt = 1700000000123000000\<rparr>]
   \<and> filter (\<lambda>j. field ''id'' j = JString ''00112233445566778899aabb'')
        (listedTasks (fetchTodos envUp
           (serve (docs (createTodo envUp [docA] reqCreate)) laterCallsUpdating) reqList))
      = [todoJSON \<lparr>todo.ID = ''00112233445566778899aabb'', todo.Title = ''Updated'',
                   todo.Completed = True, todo.CreatedAt = 1700000000123000000\<rparr>]"
proof -
  have b: "Body reqCreate = Inr newTodo" by (simp add: reqCreate_def)
  have c: "status (response (createTodo envUp [docA] reqCreate)) = StatusCreated"
    by (simp add: createTodo_def reqCreate_def newTodo_def InsertOne_def envUp_def docA_def
        oidA_def oidB_def JSON_def Let_def)
  have l: "storeErr envUp = None" "cursorErr envUp = None" by (simp_all add: envUp_def)
  have v: "NewObjectID envUp = oidB" "todo.Title newTodo = ''New Todo''"
    "now envUp = 1700000000123456789"
    by (simp_all add: newTodo_def envUp_def)
  have h: "Hex oidB = ''00112233445566778899aabb''"
    by (simp add: oidB_def Hex_def hexEncode_def hextable_def)
  have k1: "\<forall>c \<in> set (served (docs (createTodo envUp [docA] reqCreate)) laterCalls).
              \<not> deleted (NewObjectID envUp) c"
    using laterCalls_kept by (simp add: created_docs v)
  have k2: "\<forall>c \<in> set (served (docs (createTodo envUp [docA] reqCreate)) laterCallsUpdating).
              \<not> deleted (NewObjectID envUp) c"
    using laterCallsUpdating_kept by (simp add: created_docs v)
  have u1: "\<forall>c \<in> set (served (docs (createTodo envUp [docA] reqCreate)) laterCalls).
              \<not> updated (NewObjectID envUp) c"
    using laterCalls_not_updating by (simp add: created_docs v)
  have u2: "current (NewObjectID envUp) (todo.Title newTodo, False)
              (served (docs (createTodo envUp [docA] reqCreate)) laterCallsUpdating)
            = (''Updated'', True)"
    using laterCallsUpdating_current by (simp add: created_docs v)
  from created_task_round_trip [OF b c l k1, of reqList] u1
  have r1: "field ''todo_id'' (payload (response (createTodo envUp [docA] reqCreate)))
        = JString ''00112233445566778899aabb''
     \<and> filter (\<lambda>j. field ''id'' j = JString ''00112233445566778899aabb'')
        (listedTasks (fetchTodos envUp
           (serve (docs (createTodo envUp [docA] reqCreate)) laterCalls) reqList))
      = [todoJSON \<lparr>todo.ID = ''00112233445566778899aabb'', todo.Title = ''New Todo'',
                   todo.Completed = False, todo.CreatedAt = 1700000000123000000\<rparr>]"
    by (simp add: v h)
  from created_task_round_trip [OF b c l k2, of reqList] u2
  have r2: "filter (\<lambda>j. field ''id'' j = JString ''00112233445566778899aabb'')
        (listedTasks (fetchTodos envUp
           (serve (docs (createTodo envUp [docA] reqCreate)) laterCallsUpdating) reqList))
      = [todoJSON \<lparr>todo.ID = ''00112233445566778899aabb'', todo.Title = ''Updated'',
                   todo.Completed = True, todo.CreatedAt = 1700000000123000000\<rparr>]"
    by (simp add: v h)
  from b c l v(3) r1 r2 show ?thesis by blast
qed

text \<open>
  C2 as stated fails on the creation time: a task created at a time that is not a whole
  millisecond is listed, right after its creation, with that time cut to the millisecond.
\<close>

theorem created_task_listed_time_cut:
  "Body reqCreate = Inr newTodo
   \<and> status (response (createTodo envUp [docA] reqCreate)) = StatusCreated
   \<and> now envUp = 1700000000123456789
   \<and> map (field ''createAt'')
        (listedTasks (fetchTodos envUp (docs (createTodo envUp [docA] reqCreate)) reqList))
      = [JTime 1690000000, JTime 1700000000123000000]
   \<and> field ''createAt''
        (last (listedTasks (fetchTodos envUp (docs (createTodo envUp [docA] reqCreate)) reqList)))
      \<noteq> JTime (now envUp)"
proof -
  have c: "status (response (createTodo envUp [docA] reqCreate)) = StatusCreated"
    by (simp add: createTodo_def reqCreate_def newTodo_def InsertOne_def envUp_def docA_def
        oidA_def oidB_def JSON_def Let_def)
  have l: "listedTasks (fetchTodos envUp (docs (createTodo envUp [docA] reqCreate)) reqList)
      = [todoJSON (wire docA), todoJSON (wire docB)]"
    using listedTasks_fetchTodos [of envUp "[docA, docB]" reqList]
    by (simp add: created_docs) (simp add: envUp_def)
  have b: "Body reqCreate = Inr newTodo" by (simp add: reqCreate_def)
  have n: "now envUp = 1700000000123456789" by (simp add: envUp_def)
  have m: "map (field ''createAt'')
        (listedTasks (fetchTodos envUp (docs (createTodo envUp [docA] reqCreate)) reqList))
      = [JTime 1690000000, JTime 1700000000123000000]"
    unfolding l by (simp add: todoJSON_def wire_def field_def docA_def docB_def)
  have d: "field ''createAt''
        (last (listedTasks (fetchTodos envUp (docs (createTodo envUp [docA] reqCreate)) reqList)))
      \<noteq> JTime (now envUp)"
    unfolding l n by (simp add: todoJSON_def wire_def field_def docB_def)
  from b c n m d show ?thesis by blast
qed

text \<open>
  C8, as the code has it. Every task of a listing is an object with exactly the fields
  \<^verbatim>\<open>id\<close> (a string), \<^verbatim>\<open>title\<close> (a string), \<^verbatim>\<open>completed\<close> (a boolean) and
  \<^verbatim>\<open>createAt\<close> (a time), in this order: the tag of line 43 spells the last name
  \<^verbatim>\<open>createAt\<close>.
\<close>

theorem listed_task_fields:
  assumes "j \<in> set (listedTasks (fetchTodos e db r))"
  shows "fieldNames j = [''id'', ''title'', ''completed'', ''createAt'']
       \<and> (\<exists>i t c ts. j = JObject [(''id'', JString i), (''title'', JString t),
                                  (''completed'', JBool c), (''createAt'', JTime ts)])"
proof -
  from assms listedTasks_fetchTodos_subset [of e db r]
  obtain d where "j = todoJSON (wire d)" by auto
  then show ?thesis by (simp add: todoJSON_def fieldNames_def)
qed

theorem listed_task_fields_witness:
  "JObject [(''id'', JString ''654f1a2b3c4d5e6f708192a3''), (''title'', JString ''buy milk''),
            (''completed'', JBool False), (''createAt'', JTime 1690000000)]
     \<in> set (listedTasks (fetchTodos envUp [docA] reqList))
   \<and> fieldNames (JObject [(''id'', JString ''654f1a2b3c4d5e6f708192a3''),
         (''title'', JString ''buy milk''), (''completed'', JBool False),
         (''createAt'', JTime 1690000000)]) = [''id'', ''title'', ''completed'', ''createAt'']"
proof -
  have m: "JObject [(''id'', JString ''654f1a2b3c4d5e6f708192a3''), (''title'', JString ''buy milk''),
            (''completed'', JBool False), (''createAt'', JTime 1690000000)]
     \<in> set (listedTasks (fetchTodos envUp [docA] reqList))"
    by (simp add: listed_docA)
  from listed_task_fields [OF m] m show ?thesis by simp
qed

text \<open>
  C8 as stated fails on any listing that is not empty: the task listed for one stored
  document has the field \<^verbatim>\<open>createAt\<close> and no field \<^verbatim>\<open>createdAt\<close>.
\<close>

theorem listed_task_field_createdAt_absent:
  "map fieldNames (listedTasks (fetchTodos envUp [docA] reqList))
     = [[''id'', ''title'', ''completed'', ''createAt'']]
   \<and> map fieldNames (listedTasks (fetchTodos envUp [docA] reqList))
     \<noteq> [[''id'', ''title'', ''completed'', ''createdAt'']]"
  by (simp add: listed_docA fieldNames_def)

subsection \<open>Updating and deleting\<close>

text \<open>
  C3, as the code has it. For an identifier that parses and is the identifier of no
  stored document, and a store call that does not fail: \<^verbatim>\<open>deleteTodo\<close>, whatever the
  body of the request, answers 200 after one call of \<^verbatim>\<open>DeleteOne\<close> with that
  identifier and leaves the documents as they are; \<^verbatim>\<open>updateTodo\<close>, when the body decodes
  to a title that is not empty, answers 200 after one call of \<^verbatim>\<open>UpdateOne\<close> with that
  identifier and the title and \<^verbatim>\<open>completed\<close> of the body, and leaves the documents as
  they are.
\<close>

theorem absent_identifier_succeeds:
  assumes "ObjectIDFromHex (TrimSpace (URLParam_id r)) = Inr objID"
    and "objID \<notin> todoModel.ID ` set db"
    and "storeErr e = None"
  shows "deleteTodo e db r =
           \<lparr>response = JSON StatusOK (M [(''message'', JString ''todo deleted successfully'')]),
            docs = db, events = [CallDeleteOne objID]\<rparr>
       \<and> (Body r = Inr t \<and> todo.Title t \<noteq> [] \<longrightarrow>
            updateTodo e db r =
              \<lparr>response = JSON StatusOK (M [(''message'', JString ''Todo updated successfully'')]),
               docs = db,
               events = [BodyRead, CallUpdateOne objID (todo.Title t) (todo.Completed t)]\<rparr>)"
  using assms
  by (simp add: updateTodo_def deleteTodo_def UpdateOne_def DeleteOne_def
      setFirst_absent deleteFirst_absent)

theorem absent_identifier_succeeds_witness:
  "ObjectIDFromHex (TrimSpace (URLParam_id reqBNoBody)) = Inr oidB
   \<and> Body reqBNoBody = Inl (JSONError ''EOF'')
   \<and> ObjectIDFromHex (TrimSpace (URLParam_id reqB)) = Inr oidB
   \<and> Body reqB = Inr updatedTodo \<and> todo.Title updatedTodo \<noteq> []
   \<and> oidB \<notin> todoModel.ID ` set [docA] \<and> storeErr envUp = None
   \<and> deleteTodo envUp [docA] reqBNoBody =
        \<lparr>response = JSON StatusOK (M [(''message'', JString ''todo deleted successfully'')]),
         docs = [docA], events = [CallDeleteOne oidB]\<rparr>
   \<and> updateTodo envUp [docA] reqB =
        \<lparr>response = JSON StatusOK (M [(''message'', JString ''Todo updated successfully'')]),
         docs = [docA], events = [BodyRead, CallUpdateOne oidB ''Updated'' True]\<rparr>"
proof -
  have n: "ObjectIDFromHex (TrimSpace (URLParam_id reqBNoBody)) = Inr oidB" by code_simp
  have nb: "Body reqBNoBody = Inl (JSONError ''EOF'')" by (simp add: reqBNoBody_def)
  have a: "oidB \<notin> todoModel.ID ` set [docA]" by (simp add: docA_def oidA_def oidB_def)
  have s: "storeErr envUp = None" by (simp add: envUp_def)
  have b: "Body reqB = Inr updatedTodo" by (simp add: reqB_def)
  have t: "todo.Title updatedTodo \<noteq> []" by (simp add: updatedTodo_def)
  have v: "todo.Title updatedTodo = ''Updated''" "todo.Completed updatedTodo"
    by (simp_all add: updatedTodo_def)
  from absent_identifier_succeeds [OF n a s]
  have d: "deleteTodo envUp [docA] reqBNoBody =
        \<lparr>response = JSON StatusOK (M [(''message'', JString ''todo deleted successfully'')]),
         docs = [docA], events = [CallDeleteOne oidB]\<rparr>"
    by simp
  from absent_identifier_succeeds [OF reqB_id a s, of updatedTodo] b t v
  have u: "updateTodo envUp [docA] reqB =
        \<lparr>response = JSON StatusOK (M [(''message'', JString ''Todo updated successfully'')]),
         docs = [docA], events = [BodyRead, CallUpdateOne oidB ''Updated'' True]\<rparr>"
    by simp
  from n nb reqB_id b t a s d u show ?thesis by blast
qed

text \<open>
  C3 as stated fails when the store call fails: the identifier parses and matches no
  document, and both handlers answer 500 (lines 145-151 and 187-193).
\<close>

theorem absent_identifier_store_failure:
  "ObjectIDFromHex (TrimSpace (URLParam_id reqB)) = Inr oidB
   \<and> oidB \<notin> todoModel.ID ` set [docA]
   \<and> Body reqB = Inr updatedTodo \<and> todo.Title updatedTodo \<noteq> []
   \<and> status (response (updateTodo envDown [docA] reqB)) = StatusInternalServerError
   \<and> status (response (updateTodo envDown [docA] reqB)) \<noteq> StatusOK
   \<and> status (response (deleteTodo envDown [docA] reqB)) = StatusInternalServerError
   \<and> status (response (deleteTodo envDown [docA] reqB)) \<noteq> StatusOK"
proof -
  have a: "oidB \<notin> todoModel.ID ` set [docA]" by (simp add: docA_def oidA_def oidB_def)
  have b: "Body reqB = Inr updatedTodo \<and> todo.Title updatedTodo \<noteq> []"
    by (simp add: reqB_def updatedTodo_def)
  have u: "status (response (updateTodo envDown [docA] reqB)) = StatusInternalServerError"
    using reqB_id b
    by (simp add: updateTodo_def UpdateOne_def envDown_def JSON_def)
  have d: "status (response (deleteTodo envDown [docA] reqB)) = StatusInternalServerError"
    using reqB_id
    by (simp add: deleteTodo_def DeleteOne_def envDown_def JSON_def)
  from reqB_id a b u d show ?thesis
    by (simp add: StatusOK_def StatusInternalServerError_def)
qed

text \<open>
  C4. For an identifier that parses and a body that decodes to the empty title,
  \<^verbatim>\<open>updateTodo\<close> answers 400, its only event is the decoding of the body (no call on
  the collection), and the documents are as they were.
\<close>

theorem empty_title_update_rejected:
  assumes "ObjectIDFromHex (TrimSpace (URLParam_id r)) = Inr objID"
    and "Body r = Inr t" and "todo.Title t = []"
  shows "status (response (updateTodo e db r)) = StatusBadRequest
       \<and> events (updateTodo e db r) = [BodyRead]
       \<and> docs (updateTodo e db r) = db"
  using assms by (simp add: updateTodo_def JSON_def)

theorem empty_title_update_rejected_witness:
  "ObjectIDFromHex (TrimSpace (URLParam_id reqAUntitled)) = Inr oidA
   \<and> Body reqAUntitled = Inr untitledTodo \<and> todo.Title untitledTodo = []
   \<and> status (response (updateTodo envUp [docA] reqAUntitled)) = StatusBadRequest
   \<and> events (updateTodo envUp [docA] reqAUntitled) = [BodyRead]
   \<and> docs (updateTodo envUp [docA] reqAUntitled) = [docA]"
proof -
  have i: "ObjectIDFromHex (TrimSpace (URLParam_id reqAUntitled)) = Inr oidA" by code_simp
  have b: "Body reqAUntitled = Inr untitledTodo" by (simp add: reqAUntitled_def)
  have t: "todo.Title untitledTodo = []" by (simp add: untitledTodo_def)
  from empty_title_update_rejected [OF i b t, of envUp "[docA]"] i b t show ?thesis by simp
qed

text \<open>
  C5. After an update answered 200 the collection has the same length, each document
  keeps its identifier and its creation time, a document whose identifier is not the one
  of the request is unchanged, any other is unchanged or has its title and its
  \<^verbatim>\<open>completed\<close> overwritten by those of the body, and the document the identifier
  finds has exactly these two fields overwritten.
\<close>

theorem update_overwrites_title_and_completed_only:
  assumes "status (response (updateTodo e db r)) = StatusOK"
  shows "\<exists>objID t.
           ObjectIDFromHex (TrimSpace (URLParam_id r)) = Inr objID \<and> Body r = Inr t
         \<and> length (docs (updateTodo e db r)) = length db
         \<and> (\<forall>i < length db.
               todoModel.ID (docs (updateTodo e db r) ! i) = todoModel.ID (db ! i)
             \<and> todoModel.CreatedAt (docs (updateTodo e db r) ! i) = todoModel.CreatedAt (db ! i)
             \<and> (todoModel.ID (db ! i) \<noteq> objID \<longrightarrow> docs (updateTodo e db r) ! i = db ! i)
             \<and> (docs (updateTodo e db r) ! i = db ! i
                \<or> docs (updateTodo e db r) ! i =
                     (db ! i)\<lparr>todoModel.Title := todo.Title t,
                              todoModel.Completed := todo.Completed t\<rparr>))
         \<and> find (\<lambda>d. todoModel.ID d = objID) (docs (updateTodo e db r)) =
             map_option (\<lambda>d. d\<lparr>todoModel.Title := todo.Title t,
                                todoModel.Completed := todo.Completed t\<rparr>)
               (find (\<lambda>d. todoModel.ID d = objID) db)"
proof -
  from assms obtain objID t where
    i: "ObjectIDFromHex (TrimSpace (URLParam_id r)) = Inr objID" and b: "Body r = Inr t"
    and d: "docs (updateTodo e db r) = setFirst objID (todo.Title t) (todo.Completed t) db"
    by (auto simp: updateTodo_def UpdateOne_def JSON_def Let_def StatusOK_def
        StatusBadRequest_def StatusInternalServerError_def
        split: sum.splits option.splits if_splits)
  have n: "todoModel.ID (setFirst objID ti c db ! i) = todoModel.ID (db ! i)
      \<and> todoModel.CreatedAt (setFirst objID ti c db ! i) = todoModel.CreatedAt (db ! i)
      \<and> (todoModel.ID (db ! i) \<noteq> objID \<longrightarrow> setFirst objID ti c db ! i = db ! i)
      \<and> (setFirst objID ti c db ! i = db ! i
          \<or> setFirst objID ti c db ! i
               = (db ! i)\<lparr>todoModel.Title := ti, todoModel.Completed := c\<rparr>)"
    if "i < length db" for i ti c
    using setFirst_nth [OF that, of objID ti c] by auto
  show ?thesis
    using i b n by (simp add: d setFirst_length setFirst_find)
qed

theorem update_overwrites_title_and_completed_only_witness:
  "status (response (updateTodo envUp [docB, docA] reqA)) = StatusOK
   \<and> length (docs (updateTodo envUp [docB, docA] reqA)) = 2
   \<and> docs (updateTodo envUp [docB, docA] reqA) ! 0 = docB
   \<and> todoModel.ID (docs (updateTodo envUp [docB, docA] reqA) ! 1) = oidA
   \<and> todoModel.CreatedAt (docs (updateTodo envUp [docB, docA] reqA) ! 1) = 1690000000
   \<and> find (\<lambda>d. todoModel.ID d = oidA) (docs (updateTodo envUp [docB, docA] reqA)) =
       Some (docA\<lparr>todoModel.Title := ''Updated'', todoModel.Completed := True\<rparr>)"
proof -
  have b: "Body reqA = Inr updatedTodo" by (simp add: reqA_def)
  have s: "status (response (updateTodo envUp [docB, docA] reqA)) = StatusOK"
    using reqA_id b
    by (simp add: updateTodo_def UpdateOne_def envUp_def JSON_def updatedTodo_def)
  from update_overwrites_title_and_completed_only [OF s] reqA_id b
  have f: "length (docs (updateTodo envUp [docB, docA] reqA)) = length [docB, docA]"
    and g: "\<forall>i < length [docB, docA].
               todoModel.ID (docs (updateTodo envUp [docB, docA] reqA) ! i)
                 = todoModel.ID ([docB, docA] ! i)
             \<and> todoModel.CreatedAt (docs (updateTodo envUp [docB, docA] reqA) ! i)
                 = todoModel.CreatedAt ([docB, docA] ! i)
             \<and> (todoModel.ID ([docB, docA] ! i) \<noteq> oidA
                  \<longrightarrow> docs (updateTodo envUp [docB, docA] reqA) ! i = [docB, docA] ! i)"
    and h: "find (\<lambda>d. todoModel.ID d = oidA) (docs (updateTodo envUp [docB, docA] reqA)) =
             map_option (\<lambda>d. d\<lparr>todoModel.Title := todo.Title updatedTodo,
                                todoModel.Completed := todo.Completed updatedTodo\<rparr>)
               (find (\<lambda>d. todoModel.ID d = oidA) [docB, docA])"
    by auto
  have ne: "todoModel.ID docB \<noteq> oidA" by (simp add: docB_def oidA_def oidB_def)
  from g have g0: "docs (updateTodo envUp [docB, docA] reqA) ! 0 = docB"
    using ne by (auto dest: spec [of _ 0])
  from g have g1: "todoModel.ID (docs (updateTodo envUp [docB, docA] reqA) ! 1) = oidA
      \<and> todoModel.CreatedAt (docs (updateTodo envUp [docB, docA] reqA) ! 1) = 1690000000"
    by (auto dest!: spec [of _ 1] simp: docA_def)
  from h ne have h': "find (\<lambda>d. todoModel.ID d = oidA) (docs (updateTodo envUp [docB, docA] reqA)) =
       Some (docA\<lparr>todoModel.Title := ''Updated'', todoModel.Completed := True\<rparr>)"
    by (simp add: docA_def updatedTodo_def)
  from s f g0 g1 h' show ?thesis by simp
qed

subsection \<open>Rejected identifiers\<close>

text \<open>
  C7. When the \<^verbatim>\<open>id\<close> of the path, trimmed, does not parse as an ObjectID, both
  \<^verbatim>\<open>updateTodo\<close> and \<^verbatim>\<open>deleteTodo\<close> answer 400, make no call on the collection
  (they perform no event at all) and leave the documents as they are.
\<close>

theorem invalid_identifier_rejected:
  assumes "ObjectIDFromHex (TrimSpace (URLParam_id r)) = Inl err"
  shows "status (response (updateTodo e db r)) = StatusBadRequest
       \<and> events (updateTodo e db r) = [] \<and> docs (updateTodo e db r) = db
       \<and> status (response (deleteTodo e db r)) = StatusBadRequest
       \<and> events (deleteTodo e db r) = [] \<and> docs (deleteTodo e db r) = db"
  using assms by (simp add: updateTodo_def deleteTodo_def JSON_def)

theorem invalid_identifier_rejected_witness:
  "ObjectIDFromHex (TrimSpace (URLParam_id reqBadId)) = Inl ErrInvalidHex
   \<and> status (response (updateTodo envUp [docA] reqBadId)) = StatusBadRequest
   \<and> events (updateTodo envUp [docA] reqBadId) = []
   \<and> docs (updateTodo envUp [docA] reqBadId) = [docA]
   \<and> status (response (deleteTodo envUp [docA] reqBadId)) = StatusBadRequest
   \<and> events (deleteTodo envUp [docA] reqBadId) = []
   \<and> docs (deleteTodo envUp [docA] reqBadId) = [docA]"
proof -
  have bad: "ObjectIDFromHex (TrimSpace (URLParam_id reqBadId)) = Inl ErrInvalidHex"
    by code_simp
  from invalid_identifier_rejected [OF bad, of envUp "[docA]"] bad show ?thesis by simp
qed

text \<open>
  C9. Both handlers trim the \<^verbatim>\<open>id\<close> of the path before parsing it: for a string of
  24 hexadecimal digits between any white-space runes, the trimmed string is the digits,
  the request is not answered with the invalid-identifier error, and each handler does
  exactly what it does for the digits alone. The record addressed is the one the digits
  denote: \<^verbatim>\<open>deleteTodo\<close> calls \<^verbatim>\<open>DeleteOne\<close> with that identifier and, the store not
  failing, answers 200 with the first document of that identifier removed;
  \<^verbatim>\<open>updateTodo\<close>, for a body that decodes to a title that is not empty, calls
  \<^verbatim>\<open>UpdateOne\<close> with that identifier and, the store not failing, answers 200 with the
  title and \<^verbatim>\<open>completed\<close> of the first document of that identifier overwritten.
\<close>

theorem identifier_whitespace_trimmed:
  assumes "set ws1 \<subseteq> set unicodeSpaces" and "set ws2 \<subseteq> set unicodeSpaces"
    and "ObjectIDFromHex h = Inr objID"
  shows "TrimSpace (concat ws1 @ h @ concat ws2) = h \<and> TrimSpace h = h
       \<and> updateTodo e db (r\<lparr>URLParam_id := concat ws1 @ h @ concat ws2\<rparr>)
           = updateTodo e db (r\<lparr>URLParam_id := h\<rparr>)
       \<and> deleteTodo e db (r\<lparr>URLParam_id := concat ws1 @ h @ concat ws2\<rparr>)
           = deleteTodo e db (r\<lparr>URLParam_id := h\<rparr>)
       \<and> events (deleteTodo e db (r\<lparr>URLParam_id := concat ws1 @ h @ concat ws2\<rparr>))
           = [CallDeleteOne objID]
       \<and> (storeErr e = None \<longrightarrow>
            deleteTodo e db (r\<lparr>URLParam_id := concat ws1 @ h @ concat ws2\<rparr>) =
              \<lparr>response = JSON StatusOK
                  (M [(''message'', JString ''todo deleted successfully'')]),
               docs = deleteFirst objID db, events = [CallDeleteOne objID]\<rparr>)
       \<and> (Body r = Inr t \<and> todo.Title t \<noteq> [] \<longrightarrow>
            events (updateTodo e db (r\<lparr>URLParam_id := concat ws1 @ h @ concat ws2\<rparr>))
              = [BodyRead, CallUpdateOne objID (todo.Title t) (todo.Completed t)]
          \<and> (storeErr e = None \<longrightarrow>
               updateTodo e db (r\<lparr>URLParam_id := concat ws1 @ h @ concat ws2\<rparr>) =
                 \<lparr>response = JSON StatusOK
                     (M [(''message'', JString ''Todo updated successfully'')]),
                  docs = setFirst objID (todo.Title t) (todo.Completed t) db,
                  events = [BodyRead,
                            CallUpdateOne objID (todo.Title t) (todo.Completed t)]\<rparr>))
       \<and> response (updateTodo e db (r\<lparr>URLParam_id := concat ws1 @ h @ concat ws2\<rparr>))
           \<noteq> JSON StatusBadRequest (M [(''message'', JString ''The id is invalid'')])
       \<and> response (deleteTodo e db (r\<lparr>URLParam_id := concat ws1 @ h @ concat ws2\<rparr>))
           \<noteq> JSON StatusBadRequest (M [(''message'', JString ''The Id is invalid'')])"
proof -
  have t: "TrimSpace (concat ws1 @ h @ concat ws2) = h"
    by (rule TrimSpace_identifier [OF assms])
  have t': "TrimSpace h = h"
    using TrimSpace_identifier [of "[]" "[]" h objID] assms(3) by simp
  show ?thesis
    using assms(3)
    by (auto simp: t t' updateTodo_def deleteTodo_def DeleteOne_def UpdateOne_def JSON_def M_def
        StatusBadRequest_def StatusOK_def StatusInternalServerError_def
        split: sum.splits option.splits)
qed

theorem identifier_whitespace_trimmed_witness:
  "set spacesL \<subseteq> set unicodeSpaces \<and> set spacesR \<subseteq> set unicodeSpaces
   \<and> ObjectIDFromHex hexA = Inr oidA
   \<and> Body reqA = Inr updatedTodo \<and> todo.Title updatedTodo \<noteq> [] \<and> storeErr envUp = None
   \<and> TrimSpace (concat spacesL @ hexA @ concat spacesR) = hexA
   \<and> updateTodo envUp [docB, docA] (reqA\<lparr>URLParam_id := concat spacesL @ hexA @ concat spacesR\<rparr>)
       = updateTodo envUp [docB, docA] (reqA\<lparr>URLParam_id := hexA\<rparr>)
   \<and> deleteTodo envUp [docB, docA] (reqA\<lparr>URLParam_id := concat spacesL @ hexA @ concat spacesR\<rparr>)
       = deleteTodo envUp [docB, docA] (reqA\<lparr>URLParam_id := hexA\<rparr>)
   \<and> deleteTodo envUp [docB, docA]
        (reqA\<lparr>URLParam_id := concat spacesL @ hexA @ concat spacesR\<rparr>) =
        \<lparr>response = JSON StatusOK (M [(''message'', JString ''todo deleted successfully'')]),
         docs = [docB], events = [CallDeleteOne oidA]\<rparr>
   \<and> updateTodo envUp [docB, docA]
        (reqA\<lparr>URLParam_id := concat spacesL @ hexA @ concat spacesR\<rparr>) =
        \<lparr>response = JSON StatusOK (M [(''message'', JString ''Todo updated successfully'')]),
         docs = [docB, docA\<lparr>todoModel.Title := ''Updated'', todoModel.Completed := True\<rparr>],
         events = [BodyRead, CallUpdateOne oidA ''Updated'' True]\<rparr>"
proof -
  have 1: "set spacesL \<subseteq> set unicodeSpaces"
    by (simp add: spacesL_def unicodeSpaces_def)
  have 2: "set spacesR \<subseteq> set unicodeSpaces"
    by (simp add: spacesR_def unicodeSpaces_def)
  have 3: "ObjectIDFromHex hexA = Inr oidA"
    by code_simp
  have b: "Body reqA = Inr updatedTodo" "todo.Title updatedTodo \<noteq> []" "storeErr envUp = None"
    by (simp_all add: reqA_def updatedTodo_def envUp_def)
  have v: "todo.Title updatedTodo = ''Updated''" "todo.Completed updatedTodo"
    by (simp_all add: updatedTodo_def)
  have ne: "todoModel.ID docB \<noteq> oidA" "todoModel.ID docA = oidA"
    by (simp_all add: docA_def docB_def oidA_def oidB_def)
  have d: "deleteFirst oidA [docB, docA] = [docB]" using ne by simp
  have s: "setFirst oidA ''Updated'' True [docB, docA]
      = [docB, docA\<lparr>todoModel.Title := ''Updated'', todoModel.Completed := True\<rparr>]"
    using ne by simp
  note inst = identifier_whitespace_trimmed [OF 1 2 3, of envUp "[docB, docA]" reqA updatedTodo]
  from inst b(3)
  have "deleteTodo envUp [docB, docA]
        (reqA\<lparr>URLParam_id := concat spacesL @ hexA @ concat spacesR\<rparr>) =
        \<lparr>response = JSON StatusOK (M [(''message'', JString ''todo deleted successfully'')]),
         docs = deleteFirst oidA [docB, docA], events = [CallDeleteOne oidA]\<rparr>"
    by blast
  then have dl: "deleteTodo envUp [docB, docA]
        (reqA\<lparr>URLParam_id := concat spacesL @ hexA @ concat spacesR\<rparr>) =
        \<lparr>response = JSON StatusOK (M [(''message'', JString ''todo deleted successfully'')]),
         docs = [docB], events = [CallDeleteOne oidA]\<rparr>"
    by (simp only: d)
  from inst b
  have "updateTodo envUp [docB, docA]
        (reqA\<lparr>URLParam_id := concat spacesL @ hexA @ concat spacesR\<rparr>) =
        \<lparr>response = JSON StatusOK (M [(''message'', JString ''Todo updated successfully'')]),
         docs = setFirst oidA (todo.Title updatedTodo) (todo.Completed updatedTodo) [docB, docA],
         events = [BodyRead,
                   CallUpdateOne oidA (todo.Title updatedTodo) (todo.Completed updatedTodo)]\<rparr>"
    by blast
  then have up: "updateTodo envUp [docB, docA]
        (reqA\<lparr>URLParam_id := concat spacesL @ hexA @ concat spacesR\<rparr>) =
        \<lparr>response = JSON StatusOK (M [(''message'', JString ''Todo updated successfully'')]),
         docs = [docB, docA\<lparr>todoModel.Title := ''Updated'', todoModel.Completed := True\<rparr>],
         events = [BodyRead, CallUpdateOne oidA ''Updated'' True]\<rparr>"
    by (simp only: v s eqTrueI [OF v(2)])
  from inst 1 2 3 b dl up show ?thesis by blast
qed

text \<open>
  C10. \<^verbatim>\<open>updateTodo\<close> checks in order. When the identifier does not parse, whatever
  the body is, the result is the invalid-identifier answer with no event, so the body is
  not read. When the identifier parses and the body does not decode, the answer is the
  decoding error. When both succeed and the title is empty, the answer is the
  missing-title error. In the last two cases the only event is the reading of the body.
\<close>

theorem updateTodo_validation_order:
  "(ObjectIDFromHex (TrimSpace (URLParam_id r)) = Inl err \<longrightarrow>
      updateTodo e db (r\<lparr>Body := b\<rparr>) =
        \<lparr>response = JSON StatusBadRequest (M [(''message'', JString ''The id is invalid'')]),
         docs = db, events = []\<rparr>)
   \<and> (ObjectIDFromHex (TrimSpace (URLParam_id r)) = Inr objID \<and> Body r = Inl err' \<longrightarrow>
        updateTodo e db r =
          \<lparr>response = JSON StatusBadRequest (JErr err'), docs = db, events = [BodyRead]\<rparr>)
   \<and> (ObjectIDFromHex (TrimSpace (URLParam_id r)) = Inr objID \<and> Body r = Inr t
        \<and> todo.Title t = [] \<longrightarrow>
        updateTodo e db r =
          \<lparr>response = JSON StatusBadRequest
             (M [(''message'', JString ''The title field is missing'')]),
           docs = db, events = [BodyRead]\<rparr>)"
  by (simp add: updateTodo_def)

theorem updateTodo_validation_order_witness:
  "ObjectIDFromHex (TrimSpace (URLParam_id reqBadId)) = Inl ErrInvalidHex
   \<and> updateTodo envUp [docA] (reqBadId\<lparr>Body := Inl (JSONError ''unexpected EOF'')\<rparr>) =
        \<lparr>response = JSON StatusBadRequest (M [(''message'', JString ''The id is invalid'')]),
         docs = [docA], events = []\<rparr>
   \<and> updateTodo envUp [docA] (reqBadId\<lparr>Body := Inr untitledTodo\<rparr>) =
        \<lparr>response = JSON StatusBadRequest (M [(''message'', JString ''The id is invalid'')]),
         docs = [docA], events = []\<rparr>
   \<and> ObjectIDFromHex (TrimSpace (URLParam_id reqAMalformed)) = Inr oidA
   \<and> Body reqAMalformed = Inl (JSONError ''unexpected EOF'')
   \<and> updateTodo envUp [docA] reqAMalformed =
        \<lparr>response = JSON StatusBadRequest (JErr (JSONError ''unexpected EOF'')),
         docs = [docA], events = [BodyRead]\<rparr>
   \<and> ObjectIDFromHex (TrimSpace (URLParam_id reqAUntitled)) = Inr oidA
   \<and> Body reqAUntitled = Inr untitledTodo \<and> todo.Title untitledTodo = []
   \<and> updateTodo envUp [docA] reqAUntitled =
        \<lparr>response = JSON StatusBadRequest
           (M [(''message'', JString ''The title field is missing'')]),
         docs = [docA], events = [BodyRead]\<rparr>"
proof -
  have bad: "ObjectIDFromHex (TrimSpace (URLParam_id reqBadId)) = Inl ErrInvalidHex"
    by code_simp
  have m: "ObjectIDFromHex (TrimSpace (URLParam_id reqAMalformed)) = Inr oidA" by code_simp
  have mb: "Body reqAMalformed = Inl (JSONError ''unexpected EOF'')"
    by (simp add: reqAMalformed_def)
  have u: "ObjectIDFromHex (TrimSpace (URLParam_id reqAUntitled)) = Inr oidA" by code_simp
  have ub: "Body reqAUntitled = Inr untitledTodo" "todo.Title untitledTodo = []"
    by (simp_all add: reqAUntitled_def untitledTodo_def)
  note order = updateTodo_validation_order
  from order [of reqBadId ErrInvalidHex envUp "[docA]" "Inl (JSONError ''unexpected EOF'')"] bad
  have 1: "updateTodo envUp [docA] (reqBadId\<lparr>Body := Inl (JSONError ''unexpected EOF'')\<rparr>) =
        \<lparr>response = JSON StatusBadRequest (M [(''message'', JString ''The id is invalid'')]),
         docs = [docA], events = []\<rparr>"
    by simp
  from order [of reqBadId ErrInvalidHex envUp "[docA]" "Inr untitledTodo"] bad
  have 2: "updateTodo envUp [docA] (reqBadId\<lparr>Body := Inr untitledTodo\<rparr>) =
        \<lparr>response = JSON StatusBadRequest (M [(''message'', JString ''The id is invalid'')]),
         docs = [docA], events = []\<rparr>"
    by simp
  from order [of reqAMalformed _ envUp "[docA]" _ oidA "JSONError ''unexpected EOF''"] m mb
  have 3: "updateTodo envUp [docA] reqAMalformed =
        \<lparr>response = JSON StatusBadRequest (JErr (JSONError ''unexpected EOF'')),
         docs = [docA], events = [BodyRead]\<rparr>"
    by simp
  from order [of reqAUntitled _ envUp "[docA]" _ oidA _ untitledTodo] u ub
  have 4: "updateTodo envUp [docA] reqAUntitled =
        \<lparr>response = JSON StatusBadRequest
           (M [(''message'', JString ''The title field is missing'')]),
         docs = [docA], events = [BodyRead]\<rparr>"
    by simp
  from bad m mb u ub 1 2 3 4 show ?thesis by simp
qed

end
